theory Spec2Isabelle
  imports Main "HOL-Library.Word"
begin

section \<open>Strings\<close>

text \<open>
  Go strings are byte sequences; they are modelled as \<open>string\<close> (a list of 8-bit
  characters), so \<open>length\<close> is Go's \<open>len\<close>.  \<open>strings.Split\<close> and \<open>strings.Join\<close>
  work on the bytes and are written out here.  The functions of the standard library
  that read a string as UTF-8 text (\<open>strings.ToLower\<close>, \<open>strings.TrimSpace\<close>,
  \<open>utf8.RuneCountInString\<close>) are parameters of the model, declared with the other
  libraries below.
\<close>

text \<open>\<open>strings.Split(s, sep)\<close> for a one-byte separator: a string with \<open>n\<close>
  separators has \<open>n + 1\<close> parts, and the empty string has the single part \<open>""\<close>.\<close>

fun Split :: "string \<Rightarrow> char \<Rightarrow> string list" where
  "Split [] sep = [[]]"
| "Split (x # xs) sep =
     (if x = sep then [] # Split xs sep
      else (case Split xs sep of
              [] \<Rightarrow> [[x]]
            | p # ps \<Rightarrow> (x # p) # ps))"

fun Join :: "string list \<Rightarrow> string \<Rightarrow> string" where
  "Join [] sep = []"
| "Join [x] sep = x"
| "Join (x # y # ys) sep = x @ sep @ Join (y # ys) sep"

section \<open>The user model (models/user.go)\<close>

type_synonym UUID = "128 word"

text \<open>\<open>time.Time\<close> as nanoseconds since the Unix epoch.\<close>

type_synonym Time = int

definition Second :: int where
  "Second = 1000000000"

definition Hour :: int where
  "Hour = 3600 * Second"

definition RoleUser :: string where
  "RoleUser = ''user''"

definition RoleAdmin :: string where
  "RoleAdmin = ''admin''"

record User =
  ID :: UUID
  Name :: string
  Email :: string
  PasswordHash :: string
  Role :: string
  CreatedAt :: Time
  UpdatedAt :: Time
  Password :: string
  PasswordConfirm :: string

definition IsAdmin :: "User \<Rightarrow> bool" where
  "IsAdmin u \<longleftrightarrow> Role u = RoleAdmin"

definition IsUser :: "User \<Rightarrow> bool" where
  "IsUser u \<longleftrightarrow> Role u = RoleUser"

section \<open>Token claims and the libraries the handlers call\<close>

text \<open>
  \<open>JWTClaims\<close> embeds \<open>jwt.RegisteredClaims\<close>.  A \<open>*jwt.NumericDate\<close> is an optional
  instant; \<open>jwt.NewNumericDate\<close> truncates it to the library's precision of one second.
\<close>

record JWTClaims =
  UserID :: string
  Email_claim :: string
  Role_claim :: string
  Issuer :: string
  Subject :: string
  Audience :: "string list"
  ExpiresAt :: "Time option"
  NotBefore :: "Time option"
  IssuedAt :: "Time option"
  JWT_ID :: string

definition NewNumericDate :: "Time \<Rightarrow> Time option" where
  "NewNumericDate t = Some (t - t mod Second)"

text \<open>The error values of the token library.  A returned error is modelled by the
  list of these values that it is or wraps, outermost first.\<close>

datatype jwt_error =
  ErrTokenMalformed
| ErrTokenUnverifiable
| ErrTokenSignatureInvalid
| ErrTokenInvalidClaims
| ErrTokenExpired
| ErrTokenNotValidYet
| ErrSignatureInvalid
| ErrInvalidKey
| ErrInvalidKeyType
| ErrHashUnavailable

text \<open>
  The process configuration and the primitives of the libraries that the code calls
  (the standard library, \<open>golang-jwt/jwt/v5\<close>, \<open>gofrs/uuid\<close>, \<open>x/crypto/bcrypt\<close>,
  \<open>gobuffalo/validate\<close>) are parameters of the model:
  \<^item> \<open>jwtSecretKey\<close>: the value of \<open>JWT_SECRET\<close>;
  \<^item> \<open>ToLower\<close>, \<open>TrimSpace\<close>, \<open>RuneCountInString\<close>: \<open>strings.ToLower\<close>,
    \<open>strings.TrimSpace\<close> and \<open>utf8.RuneCountInString\<close>;
  \<^item> \<open>EncodeSegment\<close>, \<open>DecodeSegment\<close>: the base64url text of a byte string, and
    its decoding (\<open>None\<close> for text that is not base64url);
  \<^item> \<open>MarshalHeader\<close>: the JSON of the token header for an algorithm name;
    \<open>UnmarshalHeader\<close>: the decoding of a header's JSON (\<open>None\<close> when it is not
    JSON), giving the string under \<open>alg\<close> when there is one;
  \<^item> \<open>MarshalClaims\<close>, \<open>UnmarshalClaims\<close>: the JSON of the claims and its decoding;
  \<^item> \<open>GetSigningMethod\<close>: whether a signing method is registered under a name;
  \<^item> \<open>HS256_Sign\<close>: the HMAC-SHA256 signature of a signing string under a key;
    \<open>Verify\<close>: the \<open>Verify\<close> of the signing method with the given name, applied to
    a key, a signing string and a signature (\<open>None\<close> when it returns no error,
    otherwise the error it returns);
  \<^item> \<open>uuid_String\<close>, \<open>uuid_FromString\<close>: the text form of an identifier and its parser;
  \<^item> \<open>bcrypt_Generate\<close>, \<open>bcrypt_Compare\<close>: password hashing and comparison
    (hash first, then password);
  \<^item> \<open>EmailIsPresent\<close>: the email pattern of the validators package.
\<close>

record Env =
  jwtSecretKey :: string
  ToLower :: "string \<Rightarrow> string"
  TrimSpace :: "string \<Rightarrow> string"
  RuneCountInString :: "string \<Rightarrow> nat"
  EncodeSegment :: "string \<Rightarrow> string"
  DecodeSegment :: "string \<Rightarrow> string option"
  MarshalHeader :: "string \<Rightarrow> string"
  UnmarshalHeader :: "string \<Rightarrow> string option option"
  MarshalClaims :: "JWTClaims \<Rightarrow> string"
  UnmarshalClaims :: "string \<Rightarrow> JWTClaims option"
  GetSigningMethod :: "string \<Rightarrow> bool"
  HS256_Sign :: "string \<Rightarrow> string \<Rightarrow> string"
  Verify :: "string \<Rightarrow> string \<Rightarrow> string \<Rightarrow> string \<Rightarrow> jwt_error list option"
  uuid_String :: "UUID \<Rightarrow> string"
  uuid_FromString :: "string \<Rightarrow> UUID option"
  bcrypt_Generate :: "string \<Rightarrow> string option"
  bcrypt_Compare :: "string \<Rightarrow> string \<Rightarrow> bool"
  EmailIsPresent :: "string \<Rightarrow> bool"

section \<open>Token codec (actions/auth.go)\<close>

text \<open>The header and claims segments of a token: the base64url text of their JSON.
  Decoding a segment fails when the text is not base64url or the bytes are not JSON
  of the expected form.\<close>

definition EncodeHeader :: "Env \<Rightarrow> string \<Rightarrow> string" where
  "EncodeHeader E alg = EncodeSegment E (MarshalHeader E alg)"

definition DecodeHeader :: "Env \<Rightarrow> string \<Rightarrow> string option option" where
  "DecodeHeader E seg =
     (case DecodeSegment E seg of
        None \<Rightarrow> None
      | Some headerBytes \<Rightarrow> UnmarshalHeader E headerBytes)"

definition EncodeClaims :: "Env \<Rightarrow> JWTClaims \<Rightarrow> string" where
  "EncodeClaims E claims = EncodeSegment E (MarshalClaims E claims)"

definition DecodeClaims :: "Env \<Rightarrow> string \<Rightarrow> JWTClaims option" where
  "DecodeClaims E seg =
     (case DecodeSegment E seg of
        None \<Rightarrow> None
      | Some claimBytes \<Rightarrow> UnmarshalClaims E claimBytes)"

text \<open>\<open>token.SignedString(key)\<close> for \<open>jwt.SigningMethodHS256\<close>: header, claims and
  signature segments joined by dots.\<close>

definition SignedString :: "Env \<Rightarrow> string \<Rightarrow> JWTClaims \<Rightarrow> jwt_error list + string" where
  "SignedString E key claims =
     (let sstr = EncodeHeader E ''HS256'' @ ''.'' @ EncodeClaims E claims
      in Inr (sstr @ ''.'' @ EncodeSegment E (HS256_Sign E key sstr)))"

text \<open>The claims validator of the library with its default options: the expiry and
  not-before instants are checked when present, and the failures are joined.\<close>

definition validate_claims :: "Time \<Rightarrow> JWTClaims \<Rightarrow> jwt_error list" where
  "validate_claims now claims =
     (case ExpiresAt claims of
        None \<Rightarrow> []
      | Some e \<Rightarrow> if now < e then [] else [ErrTokenExpired])
     @ (case NotBefore claims of
        None \<Rightarrow> []
      | Some n \<Rightarrow> if now < n then [ErrTokenNotValidYet] else [])"

text \<open>\<open>jwt.ParseWithClaims(tokenString, claims, keyFunc)\<close> of version 5 of the
  library, read at the instant \<open>now\<close>.  The token must have three dot-separated
  segments; the header and then the claims are decoded (a failure is a malformed
  token); the header must name a registered signing method (else the token is
  unverifiable); the signature segment is decoded (a failure is a malformed token);
  the method verifies the signature with the key that \<open>keyFunc\<close> returns (an error is
  wrapped as an invalid signature); last the claims are validated.  The result is the
  parsed claims with the token's \<open>Valid\<close> flag, or the error.\<close>

definition ParseWithClaims ::
  "Env \<Rightarrow> Time \<Rightarrow> string \<Rightarrow> string \<Rightarrow> jwt_error list + (JWTClaims \<times> bool)" where
  "ParseWithClaims E now tokenString key =
     (let parts = Split tokenString (CHR ''.'') in
      if length parts \<noteq> 3 then Inl [ErrTokenMalformed]
      else case DecodeHeader E (parts ! 0) of
        None \<Rightarrow> Inl [ErrTokenMalformed]
      | Some header_alg \<Rightarrow>
          (case DecodeClaims E (parts ! 1) of
             None \<Rightarrow> Inl [ErrTokenMalformed]
           | Some claims \<Rightarrow>
               (case header_alg of
                  None \<Rightarrow> Inl [ErrTokenUnverifiable]
                | Some alg \<Rightarrow>
                    if \<not> GetSigningMethod E alg then Inl [ErrTokenUnverifiable]
                    else
                      (case DecodeSegment E (parts ! 2) of
                         None \<Rightarrow> Inl [ErrTokenMalformed]
                       | Some signature \<Rightarrow>
                           (case Verify E alg key (parts ! 0 @ ''.'' @ parts ! 1) signature of
                              Some err \<Rightarrow> Inl (ErrTokenSignatureInvalid # err)
                            | None \<Rightarrow>
                                (case validate_claims now claims of
                                   [] \<Rightarrow> Inr (claims, True)
                                 | e # es \<Rightarrow> Inl (ErrTokenInvalidClaims # e # es)))))))"

text \<open>\<open>GenerateJWT\<close> reads the clock twice: \<open>t0\<close> for the expiration time and \<open>t1\<close>
  for the issued-at and not-before instants.\<close>

definition GenerateJWT :: "Env \<Rightarrow> Time \<Rightarrow> Time \<Rightarrow> User \<Rightarrow> jwt_error list + (string \<times> Time)" where
  "GenerateJWT E t0 t1 user =
     (let expirationTime = t0 + 24 * Hour;
          now = t1;
          claims = \<lparr> UserID = uuid_String E (ID user),
                     Email_claim = Email user,
                     Role_claim = Role user,
                     Issuer = ''production-ready-go-backend'',
                     Subject = uuid_String E (ID user),
                     Audience = [],
                     ExpiresAt = NewNumericDate expirationTime,
                     NotBefore = NewNumericDate now,
                     IssuedAt = NewNumericDate now,
                     JWT_ID = '''' \<rparr>
      in case SignedString E (jwtSecretKey E) claims of
           Inl err \<Rightarrow> Inl err
         | Inr tokenString \<Rightarrow> Inr (tokenString, expirationTime))"

definition ValidateJWT :: "Env \<Rightarrow> Time \<Rightarrow> string \<Rightarrow> jwt_error list + JWTClaims" where
  "ValidateJWT E now tokenString =
     (case ParseWithClaims E now tokenString (jwtSecretKey E) of
        Inl err \<Rightarrow> Inl err
      | Inr (claims, valid) \<Rightarrow>
          if \<not> valid then Inl [ErrTokenMalformed] else Inr claims)"

section \<open>JSON rendering\<close>

text \<open>
  What \<open>r.JSON\<close> writes.  An object is an association list in the order in which the
  fields are written; the members of a Go map are written in the order of the list that
  represents the map.
\<close>

datatype json =
  JString string
| JTime Time
| JObject "(string \<times> json) list"

text \<open>\<open>json.Marshal\<close> of a \<open>models.User\<close>: the struct tags name six fields, and
  \<open>PasswordHash\<close>, \<open>Password\<close> and \<open>PasswordConfirm\<close> carry the tag \<open>"-"\<close>.\<close>

definition User_MarshalJSON :: "Env \<Rightarrow> User \<Rightarrow> json" where
  "User_MarshalJSON E u =
     JObject [(''id'', JString (uuid_String E (ID u))),
              (''name'', JString (Name u)),
              (''email'', JString (Email u)),
              (''role'', JString (Role u)),
              (''created_at'', JTime (CreatedAt u)),
              (''updated_at'', JTime (UpdatedAt u))]"

text \<open>\<open>User.String\<close> marshals a copy that holds the six public fields only.\<close>

record safeCopy =
  sc_ID :: UUID
  sc_Name :: string
  sc_Email :: string
  sc_Role :: string
  sc_CreatedAt :: Time
  sc_UpdatedAt :: Time

definition safeCopy_MarshalJSON :: "Env \<Rightarrow> safeCopy \<Rightarrow> json" where
  "safeCopy_MarshalJSON E c =
     JObject [(''id'', JString (uuid_String E (sc_ID c))),
              (''name'', JString (sc_Name c)),
              (''email'', JString (sc_Email c)),
              (''role'', JString (sc_Role c)),
              (''created_at'', JTime (sc_CreatedAt c)),
              (''updated_at'', JTime (sc_UpdatedAt c))]"

definition User_String :: "Env \<Rightarrow> User \<Rightarrow> json" where
  "User_String E u =
     safeCopy_MarshalJSON E
       \<lparr> sc_ID = ID u, sc_Name = Name u, sc_Email = Email u, sc_Role = Role u,
         sc_CreatedAt = CreatedAt u, sc_UpdatedAt = UpdatedAt u \<rparr>"

fun json_keys :: "json \<Rightarrow> string list" where
  "json_keys (JObject kvs) = map fst kvs"
| "json_keys (JString s) = []"
| "json_keys (JTime t) = []"

record ErrorResponse =
  Error :: string
  Details :: "(string \<times> string) list"

text \<open>\<open>Details\<close> is tagged \<open>omitempty\<close>: a nil or empty map is left out.\<close>

definition ErrorResponse_MarshalJSON :: "ErrorResponse \<Rightarrow> json" where
  "ErrorResponse_MarshalJSON e =
     JObject ((''error'', JString (Error e))
              # (if Details e = [] then []
                 else [(''details'', JObject (map (\<lambda>(k, v). (k, JString v)) (Details e)))]))"

record AuthResponse =
  resp_Token :: string
  resp_User :: User
  resp_ExpiresAt :: Time

definition AuthResponse_MarshalJSON :: "Env \<Rightarrow> AuthResponse \<Rightarrow> json" where
  "AuthResponse_MarshalJSON E a =
     JObject [(''token'', JString (resp_Token a)),
              (''user'', User_MarshalJSON E (resp_User a)),
              (''expires_at'', JTime (resp_ExpiresAt a))]"

record Response =
  status :: nat
  body :: json

definition StatusOK :: nat where
  "StatusOK = 200"

definition StatusCreated :: nat where
  "StatusCreated = 201"

definition StatusBadRequest :: nat where
  "StatusBadRequest = 400"

definition StatusUnauthorized :: nat where
  "StatusUnauthorized = 401"

definition StatusForbidden :: nat where
  "StatusForbidden = 403"

definition StatusInternalServerError :: nat where
  "StatusInternalServerError = 500"

definition render_error :: "nat \<Rightarrow> string \<Rightarrow> Response" where
  "render_error code msg =
     \<lparr> status = code, body = ErrorResponse_MarshalJSON \<lparr> Error = msg, Details = [] \<rparr> \<rparr>"

section \<open>The credential store\<close>

text \<open>
  \<open>models.DB\<close> is the table of users together with the state of the connection: every
  query of an unavailable store returns an error.  A row read from the table has its
  virtual fields empty.
\<close>

record DB =
  rows :: "User list"
  available :: bool

definition scan_row :: "User \<Rightarrow> User" where
  "scan_row r = r\<lparr> Password := '''', PasswordConfirm := '''' \<rparr>"

text \<open>\<open>DB.Where("email = ?", e).First(user)\<close>; \<open>None\<close> is a returned error.\<close>

definition Where_email_First :: "DB \<Rightarrow> string \<Rightarrow> User option" where
  "Where_email_First db e =
     (if \<not> available db then None
      else map_option scan_row (find (\<lambda>r. Email r = e) (rows db)))"

text \<open>\<open>DB.Find(user, id)\<close>.\<close>

definition Find :: "DB \<Rightarrow> UUID \<Rightarrow> User option" where
  "Find db uid =
     (if \<not> available db then None
      else map_option scan_row (find (\<lambda>r. ID r = uid) (rows db)))"

section \<open>Validation (models/user.go)\<close>

text \<open>\<open>validate.Errors\<close>: the messages collected under each key.\<close>

type_synonym Errors = "(string \<times> string list) list"

fun errors_Add :: "Errors \<Rightarrow> string \<Rightarrow> string \<Rightarrow> Errors" where
  "errors_Add [] key msg = [(key, [msg])]"
| "errors_Add ((k, ms) # es) key msg =
     (if k = key then (k, ms @ [msg]) # es else (k, ms) # errors_Add es key msg)"

definition errors_Append :: "Errors \<Rightarrow> Errors \<Rightarrow> Errors" where
  "errors_Append v ers =
     foldl (\<lambda>acc (key, msgs). foldl (\<lambda>a msg. errors_Add a key msg) acc msgs) v ers"

definition HasAny :: "Errors \<Rightarrow> bool" where
  "HasAny v \<longleftrightarrow> v \<noteq> []"

definition Keys :: "Errors \<Rightarrow> string list" where
  "Keys v = map fst v"

definition Get :: "Errors \<Rightarrow> string \<Rightarrow> string list" where
  "Get v key = (case map_of v key of None \<Rightarrow> [] | Some ms \<Rightarrow> ms)"

text \<open>The validators of \<open>gobuffalo/validate\<close> that \<open>Validate\<close> runs; each adds its
  message under the lower-case key of its \<open>Name\<close>.\<close>

definition StringIsPresent ::
  "Env \<Rightarrow> string \<Rightarrow> string \<Rightarrow> string \<Rightarrow> Errors \<Rightarrow> Errors" where
  "StringIsPresent E field name key errors =
     (if TrimSpace E field \<noteq> '''' then errors
      else errors_Add errors key (name @ '' can not be blank.''))"

text \<open>A natural number in decimal, as \<open>%d\<close> prints it.\<close>

function show_nat :: "nat \<Rightarrow> string" where
  "show_nat n =
     (if n < 10 then [char_of (48 + n)]
      else show_nat (n div 10) @ [char_of (48 + n mod 10)])"
  by pat_completeness auto
termination
  by (relation "measure id") auto

declare show_nat.simps [simp del]

definition StringLengthInRange ::
  "Env \<Rightarrow> string \<Rightarrow> string \<Rightarrow> string \<Rightarrow> nat \<Rightarrow> nat \<Rightarrow> Errors \<Rightarrow> Errors" where
  "StringLengthInRange E field name key minLen maxLen errors =
     (let strLength = RuneCountInString E field;
          mx = (if maxLen = 0 then strLength else maxLen)
      in if minLen \<le> strLength \<and> strLength \<le> mx then errors
         else errors_Add errors key
                (name @ '' not in range('' @ show_nat minLen @ '', '' @ show_nat mx @ '')''))"

definition EmailIsPresent_validator ::
  "Env \<Rightarrow> string \<Rightarrow> string \<Rightarrow> string \<Rightarrow> Errors \<Rightarrow> Errors" where
  "EmailIsPresent_validator E field name key errors =
     (if EmailIsPresent E field then errors
      else errors_Add errors key (name @ '' does not match the email format.''))"

text \<open>The pattern \<open>^[a-zA-Z0-9._%+-]+@[a-zA-Z0-9.-]+\.[a-zA-Z]{2,}$\<close>.  The local part is
  the longest prefix of its class, since the \<open>@\<close> that follows is outside the class; the
  last label is the longest suffix of letters, since the dot before it is not a letter.
  The classes hold ASCII characters only, so a byte outside ASCII is in none of them, as
  the rune it belongs to is in none.\<close>

definition is_letter :: "char \<Rightarrow> bool" where
  "is_letter c \<longleftrightarrow>
     (let n = (of_char c :: nat) in (65 \<le> n \<and> n \<le> 90) \<or> (97 \<le> n \<and> n \<le> 122))"

definition is_digit :: "char \<Rightarrow> bool" where
  "is_digit c \<longleftrightarrow> (let n = (of_char c :: nat) in 48 \<le> n \<and> n \<le> 57)"

definition is_local_char :: "char \<Rightarrow> bool" where
  "is_local_char c \<longleftrightarrow> is_letter c \<or> is_digit c \<or> c \<in> set ''._%+-''"

definition is_domain_char :: "char \<Rightarrow> bool" where
  "is_domain_char c \<longleftrightarrow> is_letter c \<or> is_digit c \<or> c \<in> set ''.-''"

definition emailRegex_MatchString :: "string \<Rightarrow> bool" where
  "emailRegex_MatchString s =
     (let local = takeWhile is_local_char s;
          rest = dropWhile is_local_char s
      in local \<noteq> [] \<and>
         (case rest of
            [] \<Rightarrow> False
          | c # r \<Rightarrow>
              c = CHR ''@'' \<and>
              (let tld = takeWhile is_letter (rev r);
                   before = dropWhile is_letter (rev r)
               in 2 \<le> length tld \<and>
                  (case before of
                     [] \<Rightarrow> False
                   | d # labels \<Rightarrow>
                       d = CHR ''.'' \<and> labels \<noteq> [] \<and> list_all is_domain_char labels))))"

text \<open>\<open>User.Validate\<close> normalises the email and the name in place, so it returns the
  user with the errors.\<close>

definition Validate :: "Env \<Rightarrow> User \<Rightarrow> User \<times> Errors" where
  "Validate E u0 =
     (let u1 = u0\<lparr> Email := ToLower E (TrimSpace E (Email u0)) \<rparr>;
          u2 = u1\<lparr> Name := TrimSpace E (Name u1) \<rparr>;
          u = (if Role u2 = '''' then u2\<lparr> Role := RoleUser \<rparr> else u2);
          e1 = StringIsPresent E (Name u) ''Name'' ''name'' [];
          e2 = StringLengthInRange E (Name u) ''Name'' ''name'' 2 100 e1;
          e3 = StringIsPresent E (Email u) ''Email'' ''email'' e2;
          e4 = EmailIsPresent_validator E (Email u) ''Email'' ''email'' e3;
          e5 = (if Role u \<noteq> '''' \<and> Role u \<noteq> RoleUser \<and> Role u \<noteq> RoleAdmin
                then errors_Add e4 ''role''
                       (''Role must be either '' @ CHR 0x27 # ''user'' @ CHR 0x27 # '' or '' @
                        CHR 0x27 # ''admin'' @ [CHR 0x27])
                else e4);
          e6 = (if \<not> emailRegex_MatchString (Email u)
                then errors_Add e5 ''email'' ''Email format is invalid''
                else e5)
      in (u, e6))"

definition ValidateCreate :: "Env \<Rightarrow> DB \<Rightarrow> User \<Rightarrow> Errors" where
  "ValidateCreate E tx u =
     (let e1 =
        (if Password u = '''' then errors_Add [] ''password'' ''Password is required''
         else
           (let a = (if length (Password u) < 8
                     then errors_Add [] ''password''
                            ''Password must be at least 8 characters long''
                     else []);
                b = (if length (Password u) > 100
                     then errors_Add a ''password''
                            ''Password must be less than 100 characters''
                     else a)
            in if PasswordConfirm u \<noteq> '''' \<and> Password u \<noteq> PasswordConfirm u
               then errors_Add b ''password_confirm'' ''Password confirmation does not match''
               else b))
      in case Where_email_First tx (ToLower E (Email u)) of
           Some existingUser \<Rightarrow> errors_Add e1 ''email'' ''Email is already taken''
         | None \<Rightarrow> e1)"

text \<open>\<open>User.SetPassword\<close> and the \<open>BeforeCreate\<close> hook; \<open>None\<close> is a returned error.\<close>

definition SetPassword :: "Env \<Rightarrow> User \<Rightarrow> string \<Rightarrow> User option" where
  "SetPassword E u password =
     (case bcrypt_Generate E password of
        None \<Rightarrow> None
      | Some hash \<Rightarrow> Some (u\<lparr> PasswordHash := hash \<rparr>))"

definition ValidatePassword :: "Env \<Rightarrow> User \<Rightarrow> string \<Rightarrow> bool" where
  "ValidatePassword E u password \<longleftrightarrow> bcrypt_Compare E (PasswordHash u) password"

definition BeforeCreate :: "Env \<Rightarrow> User \<Rightarrow> User option" where
  "BeforeCreate E u = (if Password u \<noteq> '''' then SetPassword E u (Password u) else Some u)"

text \<open>\<open>DB.ValidateAndCreate(user)\<close> of the persistence library: \<open>Validate\<close>, then
  \<open>ValidateCreate\<close>; with no validation error the hook runs and the row is inserted
  under the identifier \<open>newID\<close> (when the user has none) with the timestamp \<open>tc\<close>.  The
  result is the validation errors, whether an error was returned, the user as the
  caller sees it afterwards, and the store.\<close>

definition ValidateAndCreate ::
  "Env \<Rightarrow> DB \<Rightarrow> UUID \<Rightarrow> Time \<Rightarrow> User \<Rightarrow> Errors \<times> bool \<times> User \<times> DB" where
  "ValidateAndCreate E db newID tc user =
     (let (u, verrs1) = Validate E user;
          verrs = errors_Append verrs1 (ValidateCreate E db u)
      in if HasAny verrs then (verrs, False, u, db)
         else case BeforeCreate E u of
           None \<Rightarrow> (verrs, True, u, db)
         | Some h \<Rightarrow>
             if \<not> available db then (verrs, True, h, db)
             else
               (let c = h\<lparr> ID := (if ID h = 0 then newID else ID h),
                           CreatedAt := tc, UpdatedAt := tc \<rparr>
                in (verrs, False, c, db\<lparr> rows := rows db @ [c] \<rparr>)))"

section \<open>Requests, contexts and handlers (actions/auth.go)\<close>

text \<open>
  A request context carries the request headers and the values that middleware has set.
  A stored value is an \<open>interface{}\<close>: a user, an identifier, or something of another
  type.  \<open>c.Value(key)\<close> is \<open>nil\<close> (here \<open>None\<close>) for a key that was never set.
\<close>

datatype Value =
  VUser User
| VUUID UUID
| VOther string

record Context =
  Header :: "string \<Rightarrow> string option"
  Values :: "string \<Rightarrow> Value option"

type_synonym Handler = "Context \<Rightarrow> Response"

text \<open>\<open>Header.Get\<close> is the empty string for an absent header.\<close>

definition Header_Get :: "Context \<Rightarrow> string \<Rightarrow> string" where
  "Header_Get c key = (case Header c key of None \<Rightarrow> '''' | Some v \<Rightarrow> v)"

definition Set :: "Context \<Rightarrow> string \<Rightarrow> Value \<Rightarrow> Context" where
  "Set c key v = c\<lparr> Values := (Values c)(key \<mapsto> v) \<rparr>"

definition Value_MarshalJSON :: "Env \<Rightarrow> Value \<Rightarrow> json" where
  "Value_MarshalJSON E v =
     (case v of
        VUser u \<Rightarrow> User_MarshalJSON E u
      | VUUID i \<Rightarrow> JString (uuid_String E i)
      | VOther s \<Rightarrow> JString s)"

record RegisterRequest =
  req_Name :: string
  req_Email :: string
  req_Password :: string
  req_PasswordConfirm :: string

record LoginRequest =
  login_Email :: string
  login_Password :: string

text \<open>The zero \<open>time.Time\<close> (January 1, year 1).\<close>

definition zeroTime :: Time where
  "zeroTime = - 62135596800 * Second"

definition render_auth :: "Env \<Rightarrow> nat \<Rightarrow> string \<Rightarrow> User \<Rightarrow> Time \<Rightarrow> Response" where
  "render_auth E code tokenString user expiresAt =
     \<lparr> status = code,
       body = AuthResponse_MarshalJSON E
                \<lparr> resp_Token = tokenString, resp_User = user, resp_ExpiresAt = expiresAt \<rparr> \<rparr>"

text \<open>\<open>RegisterHandler\<close>.  \<open>bound\<close> is the request body as \<open>c.Bind\<close> decodes it
  (\<open>None\<close> when binding fails); \<open>newID\<close> and \<open>tc\<close> are the identifier and timestamp the
  store assigns, \<open>t0\<close> and \<open>t1\<close> the two clock readings of \<open>GenerateJWT\<close>.  The handler
  returns the response and leaves the store as returned.\<close>

definition RegisterHandler ::
  "Env \<Rightarrow> DB \<Rightarrow> UUID \<Rightarrow> Time \<Rightarrow> Time \<Rightarrow> Time \<Rightarrow> RegisterRequest option \<Rightarrow> Response \<times> DB" where
  "RegisterHandler E db newID tc t0 t1 bound =
     (case bound of
        None \<Rightarrow> (render_error StatusBadRequest ''Invalid request format'', db)
      | Some req \<Rightarrow>
          if req_Password req \<noteq> req_PasswordConfirm req
          then (render_error StatusBadRequest ''Password confirmation does not match'', db)
          else
            (let user = \<lparr> ID = 0, Name = req_Name req, Email = req_Email req,
                          PasswordHash = '''', Role = RoleUser,
                          CreatedAt = zeroTime, UpdatedAt = zeroTime,
                          Password = req_Password req,
                          PasswordConfirm = req_PasswordConfirm req \<rparr>
             in case ValidateAndCreate E db newID tc user of
               (verrs, err, user', db') \<Rightarrow>
                 if err
                 then (render_error StatusInternalServerError ''Failed to create user'', db')
                 else if HasAny verrs
                 then (\<lparr> status = StatusBadRequest,
                          body = ErrorResponse_MarshalJSON
                            \<lparr> Error = ''Validation failed'',
                              Details = map (\<lambda>key. (key, Join (Get verrs key) '', ''))
                                          (Keys verrs) \<rparr> \<rparr>, db')
                 else
                   (case GenerateJWT E t0 t1 user' of
                      Inl e \<Rightarrow>
                        (render_error StatusInternalServerError ''Failed to generate token'',
                         db')
                    | Inr (tokenString, expiresAt) \<Rightarrow>
                        (render_auth E StatusCreated tokenString user' expiresAt, db'))))"

definition LoginHandler ::
  "Env \<Rightarrow> DB \<Rightarrow> Time \<Rightarrow> Time \<Rightarrow> LoginRequest option \<Rightarrow> Response" where
  "LoginHandler E db t0 t1 bound =
     (case bound of
        None \<Rightarrow> render_error StatusBadRequest ''Invalid request format''
      | Some req \<Rightarrow>
          (case Where_email_First db (ToLower E (login_Email req)) of
             None \<Rightarrow> render_error StatusUnauthorized ''Invalid credentials''
           | Some user \<Rightarrow>
               if \<not> ValidatePassword E user (login_Password req)
               then render_error StatusUnauthorized ''Invalid credentials''
               else
                 (case GenerateJWT E t0 t1 user of
                    Inl e \<Rightarrow>
                      render_error StatusInternalServerError ''Failed to generate token''
                  | Inr (tokenString, expiresAt) \<Rightarrow>
                      render_auth E StatusOK tokenString user expiresAt)))"

definition MeHandler :: "Env \<Rightarrow> Handler" where
  "MeHandler E c =
     (case Values c ''currentUser'' of
        None \<Rightarrow> render_error StatusUnauthorized ''Unauthorized''
      | Some user \<Rightarrow> \<lparr> status = StatusOK, body = Value_MarshalJSON E user \<rparr>)"

text \<open>\<open>AuthMiddleware\<close>, run at the instant \<open>now\<close> against the store \<open>db\<close>.\<close>

definition AuthMiddleware :: "Env \<Rightarrow> DB \<Rightarrow> Time \<Rightarrow> Handler \<Rightarrow> Handler" where
  "AuthMiddleware E db now next c =
     (let authHeader = Header_Get c ''Authorization'' in
      if authHeader = ''''
      then render_error StatusUnauthorized ''Authorization header required''
      else
        (let tokenParts = Split authHeader (CHR '' '') in
         if length tokenParts \<noteq> 2 \<or> tokenParts ! 0 \<noteq> ''Bearer''
         then render_error StatusUnauthorized ''Invalid authorization header format''
         else
           (case ValidateJWT E now (tokenParts ! 1) of
              Inl err \<Rightarrow> render_error StatusUnauthorized ''Invalid token''
            | Inr claims \<Rightarrow>
                (case uuid_FromString E (UserID claims) of
                   None \<Rightarrow> render_error StatusUnauthorized ''Invalid user ID in token''
                 | Some userID \<Rightarrow>
                     (case Find db userID of
                        None \<Rightarrow> render_error StatusUnauthorized ''User not found''
                      | Some user \<Rightarrow>
                          next (Set (Set c ''currentUser'' (VUser user))
                                  ''currentUserID'' (VUUID userID)))))))"

definition AdminMiddleware :: "Handler \<Rightarrow> Handler" where
  "AdminMiddleware next c =
     (case Values c ''currentUser'' of
        None \<Rightarrow> render_error StatusUnauthorized ''Unauthorized''
      | Some user \<Rightarrow>
          (case user of
             VUser currentUser \<Rightarrow>
               if \<not> IsAdmin currentUser
               then render_error StatusForbidden ''Admin access required''
               else next c
           | VUUID i \<Rightarrow> render_error StatusForbidden ''Admin access required''
           | VOther s \<Rightarrow> render_error StatusForbidden ''Admin access required''))"

definition RefreshTokenHandler :: "Env \<Rightarrow> Time \<Rightarrow> Time \<Rightarrow> Handler" where
  "RefreshTokenHandler E t0 t1 c =
     (case Values c ''currentUser'' of
        None \<Rightarrow> render_error StatusUnauthorized ''Unauthorized''
      | Some user \<Rightarrow>
          (case user of
             VUser currentUser \<Rightarrow>
               (case GenerateJWT E t0 t1 currentUser of
                  Inl e \<Rightarrow>
                    render_error StatusInternalServerError ''Failed to generate token''
                | Inr (tokenString, expiresAt) \<Rightarrow>
                    render_auth E StatusOK tokenString currentUser expiresAt)
           | VUUID i \<Rightarrow> render_error StatusInternalServerError ''Invalid user data''
           | VOther s \<Rightarrow> render_error StatusInternalServerError ''Invalid user data''))"

section \<open>Assumptions on the libraries\<close>

text \<open>The claims that \<open>GenerateJWT\<close> signs for a user, given its two clock readings.\<close>

definition issued_claims :: "Env \<Rightarrow> Time \<Rightarrow> Time \<Rightarrow> User \<Rightarrow> JWTClaims" where
  "issued_claims E t0 t1 user =
     \<lparr> UserID = uuid_String E (ID user),
       Email_claim = Email user,
       Role_claim = Role user,
       Issuer = ''production-ready-go-backend'',
       Subject = uuid_String E (ID user),
       Audience = [],
       ExpiresAt = NewNumericDate (t0 + 24 * Hour),
       NotBefore = NewNumericDate t1,
       IssuedAt = NewNumericDate t1,
       JWT_ID = '''' \<rparr>"

text \<open>The token string that \<open>SignedString\<close> returns for claims under a key.\<close>

definition signed_token :: "Env \<Rightarrow> string \<Rightarrow> JWTClaims \<Rightarrow> string" where
  "signed_token E key claims =
     EncodeHeader E ''HS256'' @ ''.'' @ EncodeClaims E claims @ ''.'' @
     EncodeSegment E
       (HS256_Sign E key (EncodeHeader E ''HS256'' @ ''.'' @ EncodeClaims E claims))"

text \<open>
  What the token library guarantees: base64url text decodes to the bytes it encodes and
  contains no dot, the JSON of the \<open>HS256\<close> header decodes to that algorithm, the
  method \<open>HS256\<close> is registered, and a signature made with a key verifies under the
  same key.
\<close>

definition jwt_library_ok :: "Env \<Rightarrow> bool" where
  "jwt_library_ok E \<longleftrightarrow>
     (\<forall>b. DecodeSegment E (EncodeSegment E b) = Some b \<and>
          CHR ''.'' \<notin> set (EncodeSegment E b)) \<and>
     UnmarshalHeader E (MarshalHeader E ''HS256'') = Some (Some ''HS256'') \<and>
     GetSigningMethod E ''HS256'' \<and>
     (\<forall>key m. Verify E ''HS256'' key m (HS256_Sign E key m) = None)"

text \<open>Claims are well formed when their JSON decodes to the same claims: their
  strings and instants survive the encoding.\<close>

definition well_formed :: "Env \<Rightarrow> JWTClaims \<Rightarrow> bool" where
  "well_formed E claims \<longleftrightarrow> UnmarshalClaims E (MarshalClaims E claims) = Some claims"

text \<open>A string is a structurally correct, validly signed token when it has three
  segments, its header and claims decode, the header names a registered signing
  method, and the signature decodes and verifies under the key.\<close>

definition validly_signed :: "Env \<Rightarrow> string \<Rightarrow> bool" where
  "validly_signed E tokenString =
     (let parts = Split tokenString (CHR ''.'') in
      length parts = 3 \<and>
      (case DecodeHeader E (parts ! 0) of
         None \<Rightarrow> False
       | Some None \<Rightarrow> False
       | Some (Some alg) \<Rightarrow>
           DecodeClaims E (parts ! 1) \<noteq> None \<and>
           GetSigningMethod E alg \<and>
           (case DecodeSegment E (parts ! 2) of
              None \<Rightarrow> False
            | Some signature \<Rightarrow>
                Verify E alg (jwtSecretKey E) (parts ! 0 @ ''.'' @ parts ! 1) signature
                  = None)))"

section \<open>An instance of the libraries, and sample data\<close>

definition john_uuid :: string where
  "john_uuid = ''00000000-0000-0000-0000-000000000001''"

definition root_uuid :: string where
  "root_uuid = ''00000000-0000-0000-0000-000000000002''"

definition john :: User where
  "john = \<lparr> ID = 1, Name = ''John Doe'', Email = ''john@example.com'',
            PasswordHash = ''$2a$password123'', Role = ''user'',
            CreatedAt = 0, UpdatedAt = 0, Password = '''', PasswordConfirm = '''' \<rparr>"

definition root :: User where
  "root = \<lparr> ID = 2, Name = ''Admin User'', Email = ''admin@example.com'',
            PasswordHash = ''$2a$password123'', Role = ''admin'',
            CreatedAt = 0, UpdatedAt = 0, Password = '''', PasswordConfirm = '''' \<rparr>"

definition sampleDB :: DB where
  "sampleDB = \<lparr> rows = [john, root], available = True \<rparr>"

text \<open>The claims of \<open>john\<close> issued at a whole number of seconds after the epoch.\<close>

definition john_claims :: "Time \<Rightarrow> JWTClaims" where
  "john_claims sec =
     \<lparr> UserID = john_uuid,
       Email_claim = ''john@example.com'',
       Role_claim = ''user'',
       Issuer = ''production-ready-go-backend'',
       Subject = john_uuid,
       Audience = [],
       ExpiresAt = Some ((sec + 86400) * 1000000000),
       NotBefore = Some (sec * 1000000000),
       IssuedAt = Some (sec * 1000000000),
       JWT_ID = '''' \<rparr>"

definition ghost_claims :: JWTClaims where
  "ghost_claims = (john_claims 1000)\<lparr> UserID := ''not-a-uuid'' \<rparr>"

text \<open>The JSON of the sample claims: those of \<open>john\<close> issued 1000 seconds and 200000
  seconds (more than two days) after the epoch, and claims with a bad user id.\<close>

definition sample_payloads :: "(string \<times> JWTClaims) list" where
  "sample_payloads =
     [(''claims-1000'', john_claims 1000), (''claims-200000'', john_claims 200000),
      (''claims-ghost'', ghost_claims)]"

text \<open>A segment encoding that stands for base64url: a dot is written \<open>_d\<close> and an
  underscore \<open>__\<close>.\<close>

fun sample_encode :: "string \<Rightarrow> string" where
  "sample_encode [] = []"
| "sample_encode (c # cs) =
     (if c = CHR ''.'' then ''_d'' else if c = CHR ''_'' then ''__'' else [c])
     @ sample_encode cs"

fun sample_decode :: "string \<Rightarrow> string option" where
  "sample_decode [] = Some []"
| "sample_decode [c] = (if c = CHR ''_'' \<or> c = CHR ''.'' then None else Some [c])"
| "sample_decode (c # d # r) =
     (if c = CHR ''_''
      then (if d = CHR ''d'' then map_option ((#) (CHR ''.'')) (sample_decode r)
            else if d = CHR ''_'' then map_option ((#) (CHR ''_'')) (sample_decode r)
            else None)
      else if c = CHR ''.'' then None
      else map_option ((#) c) (sample_decode (d # r)))"

text \<open>The standard library's text functions on ASCII text, where a character is a
  byte: the upper-case letters are the bytes 65 to 90, and white space is one of tab,
  line feed, vertical tab, form feed, carriage return and space.\<close>

definition ascii_ToLower_char :: "char \<Rightarrow> char" where
  "ascii_ToLower_char c =
     (let n = (of_char c :: nat) in if 65 \<le> n \<and> n \<le> 90 then char_of (n + 32) else c)"

definition ascii_ToLower :: "string \<Rightarrow> string" where
  "ascii_ToLower s = map ascii_ToLower_char s"

definition ascii_isSpace :: "char \<Rightarrow> bool" where
  "ascii_isSpace c \<longleftrightarrow> (of_char c :: nat) \<in> {9, 10, 11, 12, 13, 32}"

definition ascii_TrimSpace :: "string \<Rightarrow> string" where
  "ascii_TrimSpace s = rev (dropWhile ascii_isSpace (rev (dropWhile ascii_isSpace s)))"

text \<open>An instance of the parameters.  Its token codec keeps the structure of the
  library's (the signature is the signing string followed by the key, so it verifies
  under that key only); its text functions are those of the standard library on ASCII
  text, and every sample string is ASCII.\<close>

definition sampleEnv :: Env where
  "sampleEnv =
     \<lparr> jwtSecretKey = ''your-super-secret-jwt-key-change-in-production'',
       ToLower = ascii_ToLower,
       TrimSpace = ascii_TrimSpace,
       RuneCountInString = length,
       EncodeSegment = sample_encode,
       DecodeSegment = sample_decode,
       MarshalHeader = (\<lambda>alg. ''alg='' @ alg),
       UnmarshalHeader =
         (\<lambda>s. if take 4 s = ''alg='' then Some (Some (drop 4 s))
              else if s = ''{}'' then Some None
              else None),
       MarshalClaims =
         (\<lambda>c. case find (\<lambda>p. snd p = c) sample_payloads of
                None \<Rightarrow> ''claims''
              | Some p \<Rightarrow> fst p),
       UnmarshalClaims = map_of sample_payloads,
       GetSigningMethod = (\<lambda>alg. alg \<in> set [''HS256'', ''none'', ''RS256'']),
       HS256_Sign = (\<lambda>key m. m @ ''-'' @ key),
       Verify =
         (\<lambda>alg key m signature.
            if alg = ''HS256''
            then (if signature = m @ ''-'' @ key then None else Some [ErrSignatureInvalid])
            else if alg = ''none'' then Some [ErrTokenUnverifiable]
            else Some [ErrInvalidKeyType]),
       uuid_String = (\<lambda>i. if i = 1 then john_uuid else if i = 2 then root_uuid else ''?''),
       uuid_FromString =
         (\<lambda>s. if s = john_uuid then Some 1 else if s = root_uuid then Some 2 else None),
       bcrypt_Generate = (\<lambda>p. Some (''$2a$'' @ p)),
       bcrypt_Compare = (\<lambda>h p. h = ''$2a$'' @ p),
       EmailIsPresent = (\<lambda>s. CHR ''@'' \<in> set s) \<rparr>"

text \<open>The token that \<open>sampleEnv\<close> issues for \<open>john\<close> 1000 seconds after the epoch, the
  same token with another signature, and a token whose header names the method
  \<open>none\<close>.\<close>

definition john_token :: string where
  "john_token =
     ''alg=HS256.claims-1000.alg=HS256_dclaims-1000-your-super-secret-jwt-key-change-in-production''"



text \<open>Requests with and without an \<open>Authorization\<close> header, a store with no user, and a
  validly signed token whose user id is not an identifier.\<close>

definition request_with :: "string \<Rightarrow> Context" where
  "request_with h = \<lparr> Header = [''Authorization'' \<mapsto> h], Values = Map.empty \<rparr>"

definition bare_request :: Context where
  "bare_request = \<lparr> Header = Map.empty, Values = Map.empty \<rparr>"

definition vacantDB :: DB where
  "vacantDB = \<lparr> rows = [], available = True \<rparr>"

definition ghost_token :: string where
  "ghost_token =
     ''alg=HS256.claims-ghost.alg=HS256_dclaims-ghost-your-super-secret-jwt-key-change-in-production''"

text \<open>The context in which a user is bound as the current user.\<close>

definition context_of :: "User \<Rightarrow> Context" where
  "context_of u = Set bare_request ''currentUser'' (VUser u)"

text \<open>Registration requests: one whose confirmation differs from the password, one
  for the email of \<open>john\<close> in upper case, and one whose name, email and password are all
  invalid.\<close>

definition mismatch_request :: RegisterRequest where
  "mismatch_request = \<lparr> req_Name = ''John Doe'', req_Email = ''john@example.com'',
      req_Password = ''password123'', req_PasswordConfirm = ''password456'' \<rparr>"

definition duplicate_request :: RegisterRequest where
  "duplicate_request = \<lparr> req_Name = ''Jane Doe'', req_Email = ''JOHN@EXAMPLE.COM'',
      req_Password = ''password123'', req_PasswordConfirm = ''password123'' \<rparr>"

definition invalid_request :: RegisterRequest where
  "invalid_request = \<lparr> req_Name = ''J'', req_Email = ''not-an-email'',
      req_Password = ''short'', req_PasswordConfirm = ''short'' \<rparr>"

text \<open>The number of runes of valid UTF-8 text is the number of its bytes that are not
  continuation bytes.  \<open>unicodeEnv\<close> counts runes so; \<open>accent_request\<close> registers the
  one-letter name U+00E9, which is two bytes of UTF-8.\<close>

definition utf8_RuneCount :: "string \<Rightarrow> nat" where
  "utf8_RuneCount s =
     length (filter (\<lambda>c. \<not> (128 \<le> (of_char c :: nat) \<and> (of_char c :: nat) < 192)) s)"

definition unicodeEnv :: Env where
  "unicodeEnv = sampleEnv\<lparr> RuneCountInString := utf8_RuneCount \<rparr>"

definition accent_request :: RegisterRequest where
  "accent_request = \<lparr> req_Name = [CHR 0xC3, CHR 0xA9], req_Email = ''new@example.com'',
      req_Password = ''password123'', req_PasswordConfirm = ''password123'' \<rparr>"

section \<open>Auxiliary facts\<close>

lemma Split_nonempty: "Split s c \<noteq> []"
  by (cases s) (auto split: list.splits)

lemma Split_no_sep: "c \<notin> set s \<Longrightarrow> Split s c = [s]"
  by (induction s) auto

lemma Split_append: "c \<notin> set a \<Longrightarrow> Split (a @ c # r) c = a # Split r c"
  by (induction a) auto

lemma Split_length: "length (Split s c) = Suc (count_list s c)"
  by (induction s) (auto split: list.splits)

lemma Split_three:
  assumes "c \<notin> set a" "c \<notin> set b" "c \<notin> set d"
  shows "Split (a @ [c] @ b @ [c] @ d) c = [a, b, d]"
  using assms by (simp add: Split_append Split_no_sep)

lemma GenerateJWT_eq:
  "GenerateJWT E t0 t1 user =
     Inr (signed_token E (jwtSecretKey E) (issued_claims E t0 t1 user), t0 + 24 * Hour)"
  by (simp add: GenerateJWT_def SignedString_def issued_claims_def signed_token_def Let_def)

lemma Split_signed_token:
  assumes lib: "jwt_library_ok E"
  shows "Split (signed_token E key claims) (CHR ''.'') =
           [EncodeHeader E ''HS256'', EncodeClaims E claims,
            EncodeSegment E
              (HS256_Sign E key (EncodeHeader E ''HS256'' @ ''.'' @ EncodeClaims E claims))]"
proof -
  have dot: "CHR ''.'' \<notin> set (EncodeSegment E b)" for b
    using lib by (simp add: jwt_library_ok_def)
  have "Split (EncodeHeader E ''HS256'' @ [CHR ''.''] @ EncodeClaims E claims @ [CHR ''.''] @
          EncodeSegment E
            (HS256_Sign E key (EncodeHeader E ''HS256'' @ ''.'' @ EncodeClaims E claims)))
          (CHR ''.'') =
        [EncodeHeader E ''HS256'', EncodeClaims E claims,
         EncodeSegment E
           (HS256_Sign E key (EncodeHeader E ''HS256'' @ ''.'' @ EncodeClaims E claims))]"
    by (rule Split_three) (simp_all add: EncodeHeader_def EncodeClaims_def dot)
  then show ?thesis
    by (simp add: signed_token_def)
qed

lemma ParseWithClaims_signed:
  assumes lib: "jwt_library_ok E" and wf: "well_formed E claims"
  shows "ParseWithClaims E now (signed_token E key claims) key =
         (case validate_claims now claims of
            [] \<Rightarrow> Inr (claims, True)
          | e # es \<Rightarrow> Inl (ErrTokenInvalidClaims # e # es))"
proof -
  have seg: "DecodeSegment E (EncodeSegment E b) = Some b" for b
    using lib by (simp add: jwt_library_ok_def)
  have h: "DecodeHeader E (EncodeHeader E ''HS256'') = Some (Some ''HS256'')"
    using lib by (simp add: DecodeHeader_def EncodeHeader_def seg jwt_library_ok_def)
  have p: "DecodeClaims E (EncodeClaims E claims) = Some claims"
    using wf by (simp add: DecodeClaims_def EncodeClaims_def seg well_formed_def)
  have m: "GetSigningMethod E ''HS256''"
    using lib by (simp add: jwt_library_ok_def)
  have v: "Verify E ''HS256'' key sstr (HS256_Sign E key sstr) = None" for sstr
    using lib by (simp add: jwt_library_ok_def)
  show ?thesis
    unfolding ParseWithClaims_def Split_signed_token [OF lib] Let_def
    by (simp add: h p m v seg)
qed

lemma validate_claims_issued:
  assumes "t1 \<le> now" "now < t0 + 24 * Hour - (t0 + 24 * Hour) mod Second"
  shows "validate_claims now (issued_claims E t0 t1 user) = []"
proof -
  have "0 < Second" by (simp add: Second_def)
  then have "t1 mod Second \<ge> 0" by simp
  then have "t1 - t1 mod Second \<le> now" using assms(1) by linarith
  then show ?thesis
    using assms(2) by (simp add: validate_claims_def issued_claims_def NewNumericDate_def)
qed

lemma ValidateJWT_issued:
  assumes "jwt_library_ok E" and "well_formed E (issued_claims E t0 t1 u)"
    and "t1 \<le> now" and "now < t0 + 24 * Hour - (t0 + 24 * Hour) mod Second"
  shows "ValidateJWT E now (signed_token E (jwtSecretKey E) (issued_claims E t0 t1 u)) =
         Inr (issued_claims E t0 t1 u)"
  unfolding ValidateJWT_def
  using ParseWithClaims_signed [OF assms(1,2), of now "jwtSecretKey E"]
    validate_claims_issued [OF assms(3,4), of E u]
  by simp

lemma sample_decode_plain:
  assumes "c \<noteq> CHR ''_''" "c \<noteq> CHR ''.''"
  shows "sample_decode (c # s) = map_option ((#) c) (sample_decode s)"
  using assms by (cases s) simp_all

lemma sample_decode_encode: "sample_decode (sample_encode b) = Some b"
  by (induction b) (simp_all add: sample_decode_plain)

lemma sample_encode_no_dot: "CHR ''.'' \<notin> set (sample_encode b)"
  by (induction b) simp_all

lemma sampleEnv_library_ok: "jwt_library_ok sampleEnv"
  by (simp add: jwt_library_ok_def sampleEnv_def sample_decode_encode sample_encode_no_dot)

lemma issued_1000: "issued_claims sampleEnv 1000000000250 1000000000300 john = john_claims 1000"
  by (simp add: issued_claims_def sampleEnv_def john_def john_claims_def NewNumericDate_def
      Hour_def Second_def)

lemma wf_1000: "well_formed sampleEnv (john_claims 1000)"
  by (simp add: well_formed_def sampleEnv_def sample_payloads_def john_claims_def)

section \<open>Token round trip\<close>

text \<open>
  C1.  For every user whose claims are well formed, the token that \<open>GenerateJWT\<close>
  issues is accepted by \<open>ValidateJWT\<close> at every instant from its issue up to the expiry
  of its claims, and the claims returned carry the user's identifier (as user id and as
  subject), email and role.
\<close>

theorem GenerateJWT_ValidateJWT_roundtrip:
  assumes "jwt_library_ok E"
    and "well_formed E (issued_claims E t0 t1 user)"
    and "t1 \<le> now"
    and "now < t0 + 24 * Hour - (t0 + 24 * Hour) mod Second"
  shows "\<exists>tokenString expiresAt claims.
           GenerateJWT E t0 t1 user = Inr (tokenString, expiresAt) \<and>
           ValidateJWT E now tokenString = Inr claims \<and>
           UserID claims = uuid_String E (ID user) \<and>
           Subject claims = uuid_String E (ID user) \<and>
           Email_claim claims = Email user \<and>
           Role_claim claims = Role user"
proof -
  let ?c = "issued_claims E t0 t1 user"
  have "ValidateJWT E now (signed_token E (jwtSecretKey E) ?c) = Inr ?c"
    using assms by (rule ValidateJWT_issued)
  then show ?thesis
    by (simp add: GenerateJWT_eq issued_claims_def)
qed

theorem GenerateJWT_ValidateJWT_roundtrip_witness:
  "jwt_library_ok sampleEnv \<and>
   well_formed sampleEnv (issued_claims sampleEnv 1000000000250 1000000000300 john) \<and>
   (\<exists>tokenString expiresAt claims.
      GenerateJWT sampleEnv 1000000000250 1000000000300 john = Inr (tokenString, expiresAt) \<and>
      ValidateJWT sampleEnv 1000000000300 tokenString = Inr claims \<and>
      UserID claims = ''00000000-0000-0000-0000-000000000001'' \<and>
      Email_claim claims = ''john@example.com'' \<and>
      Role_claim claims = ''user'')"
proof -
  have lib: "jwt_library_ok sampleEnv"
    by (rule sampleEnv_library_ok)
  have wf: "well_formed sampleEnv (issued_claims sampleEnv 1000000000250 1000000000300 john)"
    by (simp add: issued_1000 wf_1000)
  have t: "(1000000000300::int) \<le> 1000000000300" by simp
  have e: "(1000000000300::int) < 1000000000250 + 24 * Hour - (1000000000250 + 24 * Hour) mod Second"
    by (simp add: Hour_def Second_def)
  have u: "uuid_String sampleEnv (ID john) = ''00000000-0000-0000-0000-000000000001''"
    "Email john = ''john@example.com''" "Role john = ''user''"
    by (simp_all add: sampleEnv_def john_def john_uuid_def)
  from GenerateJWT_ValidateJWT_roundtrip [OF lib wf t e]
  show ?thesis using lib wf
    unfolding u by blast
qed


section \<open>Rejected tokens\<close>

lemma ValidateJWT_signed:
  assumes "validly_signed E tok"
    and "DecodeClaims E (Split tok (CHR ''.'') ! 1) = Some c"
  shows "ValidateJWT E now tok =
           (case validate_claims now c of
              [] \<Rightarrow> Inr c
            | e # es \<Rightarrow> Inl (ErrTokenInvalidClaims # e # es))"
  using assms
  by (auto simp: ValidateJWT_def ParseWithClaims_def validly_signed_def Let_def
      split: option.splits list.splits)











lemma Split_john_token:
  "Split john_token (CHR ''.'') =
     [''alg=HS256'', ''claims-1000'',
      ''alg=HS256_dclaims-1000-your-super-secret-jwt-key-change-in-production'']"
  by (simp add: john_token_def)



lemma sample_header: "DecodeHeader sampleEnv ''alg=HS256'' = Some (Some ''HS256'')"
  by (simp add: DecodeHeader_def sampleEnv_def)


lemma sample_claims_1000: "DecodeClaims sampleEnv ''claims-1000'' = Some (john_claims 1000)"
  by (simp add: DecodeClaims_def sampleEnv_def sample_payloads_def)

lemma sample_signature_john:
  "DecodeSegment sampleEnv
     ''alg=HS256_dclaims-1000-your-super-secret-jwt-key-change-in-production'' =
   Some ''alg=HS256.claims-1000-your-super-secret-jwt-key-change-in-production''"
  by (simp add: sampleEnv_def)


lemma john_token_signed: "validly_signed sampleEnv john_token"
  unfolding validly_signed_def Split_john_token Let_def
  by (simp add: sample_header sample_claims_1000 sample_signature_john)
     (simp add: sampleEnv_def)

lemma john_token_claims:
  "DecodeClaims sampleEnv (Split john_token (CHR ''.'') ! 1) = Some (john_claims 1000)"
  unfolding Split_john_token by (simp add: sample_claims_1000)

lemma john_token_valid:
  "ValidateJWT sampleEnv 1000000000300 john_token = Inr (john_claims 1000)"
  using ValidateJWT_signed [OF john_token_signed john_token_claims, of 1000000000300]
  by (simp add: validate_claims_def john_claims_def)








section \<open>The authorization middleware\<close>

lemma render_error_unfold:
  "render_error code msg = \<lparr> status = code, body = JObject [(''error'', JString msg)] \<rparr>"
  by (simp add: render_error_def ErrorResponse_MarshalJSON_def)

lemma AuthMiddleware_no_header:
  assumes "Header_Get c ''Authorization'' = ''''"
  shows "AuthMiddleware E db now next c =
           render_error StatusUnauthorized ''Authorization header required''"
  using assms by (simp add: AuthMiddleware_def)

lemma AuthMiddleware_bad_format:
  assumes "Header_Get c ''Authorization'' \<noteq> ''''"
    and "length (Split (Header_Get c ''Authorization'') (CHR '' '')) \<noteq> 2 \<or>
         Split (Header_Get c ''Authorization'') (CHR '' '') ! 0 \<noteq> ''Bearer''"
  shows "AuthMiddleware E db now next c =
           render_error StatusUnauthorized ''Invalid authorization header format''"
  using assms unfolding AuthMiddleware_def Let_def by (simp del: Split.simps)

lemma AuthMiddleware_bearer:
  assumes "Header_Get c ''Authorization'' \<noteq> ''''"
    and "Split (Header_Get c ''Authorization'') (CHR '' '') = [''Bearer'', t]"
  shows "AuthMiddleware E db now next c =
           (case ValidateJWT E now t of
              Inl err \<Rightarrow> render_error StatusUnauthorized ''Invalid token''
            | Inr claims \<Rightarrow>
                (case uuid_FromString E (UserID claims) of
                   None \<Rightarrow> render_error StatusUnauthorized ''Invalid user ID in token''
                 | Some userID \<Rightarrow>
                     (case Find db userID of
                        None \<Rightarrow> render_error StatusUnauthorized ''User not found''
                      | Some user \<Rightarrow>
                          next (Set (Set c ''currentUser'' (VUser user))
                                  ''currentUserID'' (VUUID userID)))))"
  using assms unfolding AuthMiddleware_def Let_def by (simp del: Split.simps)

lemma ValidateJWT_empty: "ValidateJWT E now '''' = Inl [ErrTokenMalformed]"
  by (simp add: ValidateJWT_def ParseWithClaims_def)

lemma Split_Bearer_empty: "Split ''Bearer '' (CHR '' '') = [''Bearer'', '''']"
  by simp

text \<open>
  C10.  The header \<open>"Bearer "\<close> splits into the two parts \<open>"Bearer"\<close> and \<open>""\<close>, so it
  passes the format check; the empty token fails to decode, and the request is rejected
  with 401 and the error "Invalid token".  A header with more than one space has more
  than two parts and is rejected with 401 and the error "Invalid authorization header
  format", whatever the token codec, the store, the clock and the next handler are.
\<close>

theorem AuthMiddleware_empty_token_and_extra_spaces:
  "Split ''Bearer '' (CHR '' '') = [''Bearer'', ''''] \<and>
   ValidateJWT E now '''' = Inl [ErrTokenMalformed] \<and>
   (Header_Get c ''Authorization'' = ''Bearer '' \<longrightarrow>
      AuthMiddleware E db now next c = render_error StatusUnauthorized ''Invalid token'') \<and>
   (1 < count_list (Header_Get c ''Authorization'') (CHR '' '') \<longrightarrow>
      (\<forall>E' db' now' next'.
         AuthMiddleware E' db' now' next' c =
           render_error StatusUnauthorized ''Invalid authorization header format''))"
proof (intro conjI impI allI)
  show "Split ''Bearer '' (CHR '' '') = [''Bearer'', '''']" by simp
  show "ValidateJWT E now '''' = Inl [ErrTokenMalformed]" by (rule ValidateJWT_empty)
next
  assume h: "Header_Get c ''Authorization'' = ''Bearer ''"
  then have "Header_Get c ''Authorization'' \<noteq> ''''"
    and "Split (Header_Get c ''Authorization'') (CHR '' '') = [''Bearer'', '''']"
    by simp_all
  then show "AuthMiddleware E db now next c = render_error StatusUnauthorized ''Invalid token''"
    by (simp add: AuthMiddleware_bearer ValidateJWT_empty del: Split.simps)
next
  fix E' db' now' next'
  assume h: "1 < count_list (Header_Get c ''Authorization'') (CHR '' '')"
  then have ne: "Header_Get c ''Authorization'' \<noteq> ''''" by auto
  from h have "length (Split (Header_Get c ''Authorization'') (CHR '' '')) \<noteq> 2"
    by (simp add: Split_length)
  with ne show "AuthMiddleware E' db' now' next' c =
           render_error StatusUnauthorized ''Invalid authorization header format''"
    by (simp add: AuthMiddleware_bad_format del: Split.simps)
qed

theorem AuthMiddleware_empty_token_and_extra_spaces_witness:
  "Header_Get (request_with ''Bearer '') ''Authorization'' = ''Bearer '' \<and>
   AuthMiddleware sampleEnv sampleDB 0 (MeHandler sampleEnv) (request_with ''Bearer '') =
     \<lparr> status = 401, body = JObject [(''error'', JString ''Invalid token'')] \<rparr> \<and>
   1 < count_list (Header_Get (request_with ''Bearer a b'') ''Authorization'') (CHR '' '') \<and>
   AuthMiddleware sampleEnv sampleDB 0 (MeHandler sampleEnv) (request_with ''Bearer a b'') =
     \<lparr> status = 401, body = JObject [(''error'', JString ''Invalid authorization header format'')] \<rparr>"
proof -
  have a: "Header_Get (request_with ''Bearer '') ''Authorization'' = ''Bearer ''"
    by (simp add: Header_Get_def request_with_def)
  have b: "1 < count_list (Header_Get (request_with ''Bearer a b'') ''Authorization'') (CHR '' '')"
    by (simp add: Header_Get_def request_with_def)
  note t1 = AuthMiddleware_empty_token_and_extra_spaces
    [of sampleEnv 0 "request_with ''Bearer ''" sampleDB "MeHandler sampleEnv"]
  note t2 = AuthMiddleware_empty_token_and_extra_spaces
    [of sampleEnv 0 "request_with ''Bearer a b''" sampleDB "MeHandler sampleEnv"]
  have r1: "AuthMiddleware sampleEnv sampleDB 0 (MeHandler sampleEnv) (request_with ''Bearer '') =
      render_error StatusUnauthorized ''Invalid token''"
    using t1 a by blast
  have r2: "AuthMiddleware sampleEnv sampleDB 0 (MeHandler sampleEnv) (request_with ''Bearer a b'') =
      render_error StatusUnauthorized ''Invalid authorization header format''"
    using t2 b by blast
  show ?thesis
    using a b by (simp add: r1 r2 render_error_unfold StatusUnauthorized_def)
qed

lemma Split_ghost_token:
  "Split ghost_token (CHR ''.'') =
     [''alg=HS256'', ''claims-ghost'',
      ''alg=HS256_dclaims-ghost-your-super-secret-jwt-key-change-in-production'']"
  by (simp add: ghost_token_def)

lemma ghost_token_valid:
  "ValidateJWT sampleEnv 1000000000300 ghost_token = Inr ghost_claims"
proof -
  have c: "DecodeClaims sampleEnv ''claims-ghost'' = Some ghost_claims"
    by (simp add: DecodeClaims_def sampleEnv_def sample_payloads_def john_claims_def
        ghost_claims_def)
  have g: "DecodeSegment sampleEnv
      ''alg=HS256_dclaims-ghost-your-super-secret-jwt-key-change-in-production'' =
      Some ''alg=HS256.claims-ghost-your-super-secret-jwt-key-change-in-production''"
    by (simp add: sampleEnv_def)
  have s: "validly_signed sampleEnv ghost_token"
    unfolding validly_signed_def Split_ghost_token Let_def
    by (simp add: sample_header c g) (simp add: sampleEnv_def)
  have c': "DecodeClaims sampleEnv (Split ghost_token (CHR ''.'') ! 1) = Some ghost_claims"
    unfolding Split_ghost_token by (simp add: c)
  show ?thesis
    using ValidateJWT_signed [OF s c', of 1000000000300]
    by (simp add: validate_claims_def ghost_claims_def john_claims_def)
qed

lemma Header_Get_request_with: "Header_Get (request_with h) ''Authorization'' = h"
  by (simp add: Header_Get_def request_with_def)

lemma Split_Bearer_token:
  assumes "CHR '' '' \<notin> set t"
  shows "Split (''Bearer '' @ t) (CHR '' '') = [''Bearer'', t]"
proof -
  have "Split (''Bearer'' @ CHR '' '' # t) (CHR '' '') = ''Bearer'' # Split t (CHR '' '')"
    by (rule Split_append) simp
  then show ?thesis using assms by (simp add: Split_no_sep del: Split.simps)
qed

lemma Split_Bearer_john: "Split (''Bearer '' @ john_token) (CHR '' '') = [''Bearer'', john_token]"
  by (rule Split_Bearer_token) (simp add: john_token_def)

lemma Split_Bearer_ghost: "Split (''Bearer '' @ ghost_token) (CHR '' '') = [''Bearer'', ghost_token]"
  by (rule Split_Bearer_token) (simp add: ghost_token_def)

lemma Find_john: "Find sampleDB 1 = Some john"
  by (simp add: Find_def sampleDB_def john_def scan_row_def)

lemma MeHandler_current:
  "MeHandler E (Set (Set c ''currentUser'' (VUser u)) ''currentUserID'' (VUUID i)) =
     \<lparr> status = 200, body = User_MarshalJSON E u \<rparr>"
  by (simp add: MeHandler_def Set_def Value_MarshalJSON_def StatusOK_def)

text \<open>
  C5.  \<open>AuthMiddleware\<close> checks, in this order, that the header is present, that it
  has exactly two space-separated parts with the scheme \<open>Bearer\<close>, that the token
  decodes, that the user id of the claims parses, and that the store has the user; the
  first check that fails decides the response, which has status 401 and the body
  \<open>{error: message}\<close>, and only when all pass does the request reach the next handler
  with the user bound.  The header \<open>"InvalidFormat token"\<close> yields 401 with the error
  "Invalid authorization header format".
\<close>

theorem AuthMiddleware_check_order:
  assumes "h = Header_Get c ''Authorization''"
  shows
  "(h = '''' \<longrightarrow>
      AuthMiddleware E db now handler c =
        render_error StatusUnauthorized ''Authorization header required'') \<and>
   (h \<noteq> '''' \<and> (length (Split h (CHR '' '')) \<noteq> 2 \<or> Split h (CHR '' '') ! 0 \<noteq> ''Bearer'') \<longrightarrow>
      AuthMiddleware E db now handler c =
        render_error StatusUnauthorized ''Invalid authorization header format'') \<and>
   (h \<noteq> '''' \<and> Split h (CHR '' '') = [''Bearer'', t] \<longrightarrow>
      (\<forall>err. ValidateJWT E now t = Inl err \<longrightarrow>
         AuthMiddleware E db now handler c = render_error StatusUnauthorized ''Invalid token'') \<and>
      (\<forall>claims. ValidateJWT E now t = Inr claims \<longrightarrow>
         (uuid_FromString E (UserID claims) = None \<longrightarrow>
            AuthMiddleware E db now handler c =
              render_error StatusUnauthorized ''Invalid user ID in token'') \<and>
         (\<forall>userID. uuid_FromString E (UserID claims) = Some userID \<longrightarrow>
            (Find db userID = None \<longrightarrow>
               AuthMiddleware E db now handler c =
                 render_error StatusUnauthorized ''User not found'') \<and>
            (\<forall>user. Find db userID = Some user \<longrightarrow>
               AuthMiddleware E db now handler c =
                 handler (Set (Set c ''currentUser'' (VUser user))
                         ''currentUserID'' (VUUID userID)))))) \<and>
   (\<forall>msg. render_error StatusUnauthorized msg =
      \<lparr> status = 401, body = JObject [(''error'', JString msg)] \<rparr>) \<and>
   (h = ''InvalidFormat token'' \<longrightarrow>
      AuthMiddleware E db now handler c =
        \<lparr> status = 401,
          body = JObject [(''error'', JString ''Invalid authorization header format'')] \<rparr>)"
proof -
  have none: "h = '''' \<longrightarrow>
      AuthMiddleware E db now handler c =
        render_error StatusUnauthorized ''Authorization header required''"
    using assms by (simp add: AuthMiddleware_no_header)
  have format: "h \<noteq> '''' \<and>
      (length (Split h (CHR '' '')) \<noteq> 2 \<or> Split h (CHR '' '') ! 0 \<noteq> ''Bearer'') \<longrightarrow>
      AuthMiddleware E db now handler c =
        render_error StatusUnauthorized ''Invalid authorization header format''"
    using assms AuthMiddleware_bad_format [of c E db now handler] by blast
  have later: "h \<noteq> '''' \<and> Split h (CHR '' '') = [''Bearer'', t] \<longrightarrow>
      (\<forall>err. ValidateJWT E now t = Inl err \<longrightarrow>
         AuthMiddleware E db now handler c = render_error StatusUnauthorized ''Invalid token'') \<and>
      (\<forall>claims. ValidateJWT E now t = Inr claims \<longrightarrow>
         (uuid_FromString E (UserID claims) = None \<longrightarrow>
            AuthMiddleware E db now handler c =
              render_error StatusUnauthorized ''Invalid user ID in token'') \<and>
         (\<forall>userID. uuid_FromString E (UserID claims) = Some userID \<longrightarrow>
            (Find db userID = None \<longrightarrow>
               AuthMiddleware E db now handler c =
                 render_error StatusUnauthorized ''User not found'') \<and>
            (\<forall>user. Find db userID = Some user \<longrightarrow>
               AuthMiddleware E db now handler c =
                 handler (Set (Set c ''currentUser'' (VUser user))
                         ''currentUserID'' (VUUID userID)))))"
  proof (intro impI)
    assume a: "h \<noteq> '''' \<and> Split h (CHR '' '') = [''Bearer'', t]"
    then have "Header_Get c ''Authorization'' \<noteq> ''''"
      and "Split (Header_Get c ''Authorization'') (CHR '' '') = [''Bearer'', t]"
      using assms by simp_all
    note eq = AuthMiddleware_bearer [OF this, of E db now handler]
    show "(\<forall>err. ValidateJWT E now t = Inl err \<longrightarrow>
         AuthMiddleware E db now handler c = render_error StatusUnauthorized ''Invalid token'') \<and>
      (\<forall>claims. ValidateJWT E now t = Inr claims \<longrightarrow>
         (uuid_FromString E (UserID claims) = None \<longrightarrow>
            AuthMiddleware E db now handler c =
              render_error StatusUnauthorized ''Invalid user ID in token'') \<and>
         (\<forall>userID. uuid_FromString E (UserID claims) = Some userID \<longrightarrow>
            (Find db userID = None \<longrightarrow>
               AuthMiddleware E db now handler c =
                 render_error StatusUnauthorized ''User not found'') \<and>
            (\<forall>user. Find db userID = Some user \<longrightarrow>
               AuthMiddleware E db now handler c =
                 handler (Set (Set c ''currentUser'' (VUser user))
                         ''currentUserID'' (VUUID userID)))))"
      unfolding eq by simp
  qed
  have shape: "\<forall>msg. render_error StatusUnauthorized msg =
      \<lparr> status = 401, body = JObject [(''error'', JString msg)] \<rparr>"
    by (simp add: render_error_unfold StatusUnauthorized_def)
  have scenario: "h = ''InvalidFormat token'' \<longrightarrow>
      AuthMiddleware E db now handler c =
        \<lparr> status = 401,
          body = JObject [(''error'', JString ''Invalid authorization header format'')] \<rparr>"
  proof
    assume s: "h = ''InvalidFormat token''"
    then have "h \<noteq> ''''" and "Split h (CHR '' '') ! 0 \<noteq> ''Bearer''" by simp_all
    with format shape show "AuthMiddleware E db now handler c =
        \<lparr> status = 401,
          body = JObject [(''error'', JString ''Invalid authorization header format'')] \<rparr>"
      by simp
  qed
  from none format later shape scenario show ?thesis by blast
qed

theorem AuthMiddleware_check_order_witness:
  "AuthMiddleware sampleEnv sampleDB 1000000000300 (MeHandler sampleEnv) bare_request =
     \<lparr> status = 401, body = JObject [(''error'', JString ''Authorization header required'')] \<rparr> \<and>
   AuthMiddleware sampleEnv sampleDB 1000000000300 (MeHandler sampleEnv)
       (request_with ''InvalidFormat token'') =
     \<lparr> status = 401,
       body = JObject [(''error'', JString ''Invalid authorization header format'')] \<rparr> \<and>
   AuthMiddleware sampleEnv sampleDB 1000000000300 (MeHandler sampleEnv)
       (request_with ''Bearer invalid-token'') =
     \<lparr> status = 401, body = JObject [(''error'', JString ''Invalid token'')] \<rparr> \<and>
   AuthMiddleware sampleEnv sampleDB 1000000000300 (MeHandler sampleEnv)
       (request_with (''Bearer '' @ ghost_token)) =
     \<lparr> status = 401, body = JObject [(''error'', JString ''Invalid user ID in token'')] \<rparr> \<and>
   AuthMiddleware sampleEnv vacantDB 1000000000300 (MeHandler sampleEnv)
       (request_with (''Bearer '' @ john_token)) =
     \<lparr> status = 401, body = JObject [(''error'', JString ''User not found'')] \<rparr> \<and>
   AuthMiddleware sampleEnv sampleDB 1000000000300 (MeHandler sampleEnv)
       (request_with (''Bearer '' @ john_token)) =
     \<lparr> status = 200, body = User_MarshalJSON sampleEnv john \<rparr>"
proof -
  let ?now = "1000000000300 :: int" and ?next = "MeHandler sampleEnv"
  note shape = render_error_unfold StatusUnauthorized_def
  have 1: "AuthMiddleware sampleEnv sampleDB ?now ?next bare_request =
      render_error StatusUnauthorized ''Authorization header required''"
    using AuthMiddleware_check_order
      [OF refl, where c = bare_request and E = sampleEnv and db = sampleDB and now = ?now
        and handler = ?next]
    by (simp add: Header_Get_def bare_request_def)
  have 2: "AuthMiddleware sampleEnv sampleDB ?now ?next (request_with ''InvalidFormat token'') =
      render_error StatusUnauthorized ''Invalid authorization header format''"
    using AuthMiddleware_check_order
      [OF refl, where c = "request_with ''InvalidFormat token''" and E = sampleEnv
        and db = sampleDB and now = ?now and handler = ?next]
    unfolding Header_Get_request_with by simp
  have bad: "ValidateJWT sampleEnv ?now ''invalid-token'' = Inl [ErrTokenMalformed]"
    by (simp add: ValidateJWT_def ParseWithClaims_def)
  have 3: "AuthMiddleware sampleEnv sampleDB ?now ?next (request_with ''Bearer invalid-token'') =
      render_error StatusUnauthorized ''Invalid token''"
    using AuthMiddleware_check_order
      [OF refl, where c = "request_with ''Bearer invalid-token''" and E = sampleEnv
        and db = sampleDB and now = ?now and handler = ?next and t = "''invalid-token''"] bad
    unfolding Header_Get_request_with by simp
  have g: "uuid_FromString sampleEnv (UserID ghost_claims) = None"
    by (simp add: sampleEnv_def ghost_claims_def john_uuid_def root_uuid_def)
  have 4: "AuthMiddleware sampleEnv sampleDB ?now ?next (request_with (''Bearer '' @ ghost_token)) =
      render_error StatusUnauthorized ''Invalid user ID in token''"
    using AuthMiddleware_check_order
      [OF refl, where c = "request_with (''Bearer '' @ ghost_token)" and E = sampleEnv
        and db = sampleDB and now = ?now and handler = ?next and t = ghost_token]
      ghost_token_valid g
    unfolding Header_Get_request_with Split_Bearer_ghost by simp
  have j: "uuid_FromString sampleEnv (UserID (john_claims 1000)) = Some 1"
    by (simp add: sampleEnv_def john_claims_def)
  have v: "Find vacantDB 1 = None"
    by (simp add: Find_def vacantDB_def)
  have 5: "AuthMiddleware sampleEnv vacantDB ?now ?next (request_with (''Bearer '' @ john_token)) =
      render_error StatusUnauthorized ''User not found''"
    using AuthMiddleware_check_order
      [OF refl, where c = "request_with (''Bearer '' @ john_token)" and E = sampleEnv
        and db = vacantDB and now = ?now and handler = ?next and t = john_token]
      john_token_valid j v
    unfolding Header_Get_request_with Split_Bearer_john by simp
  have 6: "AuthMiddleware sampleEnv sampleDB ?now ?next (request_with (''Bearer '' @ john_token)) =
      ?next (Set (Set (request_with (''Bearer '' @ john_token)) ''currentUser'' (VUser john))
               ''currentUserID'' (VUUID 1))"
    using AuthMiddleware_check_order
      [OF refl, where c = "request_with (''Bearer '' @ john_token)" and E = sampleEnv
        and db = sampleDB and now = ?now and handler = ?next and t = john_token]
      john_token_valid j Find_john
    unfolding Header_Get_request_with Split_Bearer_john by simp
  show ?thesis
    unfolding 1 2 3 4 5 6 MeHandler_current by (simp add: shape)
qed


section \<open>The role gate\<close>

lemma AdminMiddleware_unbound:
  assumes "Values c ''currentUser'' = None"
  shows "AdminMiddleware handler c = render_error StatusUnauthorized ''Unauthorized''"
  using assms by (simp add: AdminMiddleware_def)

lemma AdminMiddleware_user:
  assumes "Values c ''currentUser'' = Some (VUser u)"
  shows "AdminMiddleware handler c =
           (if Role u = ''admin'' then handler c
            else render_error StatusForbidden ''Admin access required'')"
  using assms by (simp add: AdminMiddleware_def IsAdmin_def RoleAdmin_def)

lemma AdminMiddleware_not_admin:
  assumes "\<not> (\<exists>u. Values c ''currentUser'' = Some (VUser u) \<and> Role u = ''admin'')"
  shows "AdminMiddleware handler c =
           (if Values c ''currentUser'' = None
            then render_error StatusUnauthorized ''Unauthorized''
            else render_error StatusForbidden ''Admin access required'')"
  using assms
  by (auto simp: AdminMiddleware_def IsAdmin_def RoleAdmin_def split: option.splits Value.splits)

lemma Values_context_of: "Values (context_of u) ''currentUser'' = Some (VUser u)"
  by (simp add: context_of_def Set_def)

text \<open>
  C6.  \<open>AdminMiddleware\<close> passes the request to the next handler when the user bound in
  the context has the role \<open>admin\<close>; it answers 403 when the bound user has another
  role and 401 when no user is bound; and whenever no admin user is bound its answer is
  401 or 403 and does not depend on the next handler, which is not run.
\<close>

theorem AdminMiddleware_role_gate:
  "(Values c ''currentUser'' = Some (VUser u) \<and> Role u = ''admin'' \<longrightarrow>
      AdminMiddleware handler c = handler c) \<and>
   (Values c ''currentUser'' = Some (VUser u) \<and> Role u \<noteq> ''admin'' \<longrightarrow>
      AdminMiddleware handler c =
        \<lparr> status = 403, body = JObject [(''error'', JString ''Admin access required'')] \<rparr>) \<and>
   (Values c ''currentUser'' = None \<longrightarrow>
      AdminMiddleware handler c =
        \<lparr> status = 401, body = JObject [(''error'', JString ''Unauthorized'')] \<rparr>) \<and>
   (\<not> (\<exists>v. Values c ''currentUser'' = Some (VUser v) \<and> Role v = ''admin'') \<longrightarrow>
      status (AdminMiddleware handler c) \<in> {401, 403} \<and>
      (\<forall>handler'. AdminMiddleware handler' c = AdminMiddleware handler c))"
proof (intro conjI impI)
  assume "Values c ''currentUser'' = Some (VUser u) \<and> Role u = ''admin''"
  then show "AdminMiddleware handler c = handler c"
    by (simp add: AdminMiddleware_user)
next
  assume "Values c ''currentUser'' = Some (VUser u) \<and> Role u \<noteq> ''admin''"
  then show "AdminMiddleware handler c =
        \<lparr> status = 403, body = JObject [(''error'', JString ''Admin access required'')] \<rparr>"
    by (simp add: AdminMiddleware_user render_error_unfold StatusForbidden_def)
next
  assume "Values c ''currentUser'' = None"
  then show "AdminMiddleware handler c =
        \<lparr> status = 401, body = JObject [(''error'', JString ''Unauthorized'')] \<rparr>"
    by (simp add: AdminMiddleware_unbound render_error_unfold StatusUnauthorized_def)
next
  assume n: "\<not> (\<exists>v. Values c ''currentUser'' = Some (VUser v) \<and> Role v = ''admin'')"
  show "status (AdminMiddleware handler c) \<in> {401, 403}"
    unfolding AdminMiddleware_not_admin [OF n]
    by (simp add: render_error_unfold StatusUnauthorized_def StatusForbidden_def)
  show "\<forall>handler'. AdminMiddleware handler' c = AdminMiddleware handler c"
    unfolding AdminMiddleware_not_admin [OF n] by simp
qed

theorem AdminMiddleware_role_gate_witness:
  "Values (context_of root) ''currentUser'' = Some (VUser root) \<and> Role root = ''admin'' \<and>
   AdminMiddleware (MeHandler sampleEnv) (context_of root) =
     \<lparr> status = 200, body = User_MarshalJSON sampleEnv root \<rparr> \<and>
   Values (context_of john) ''currentUser'' = Some (VUser john) \<and> Role john \<noteq> ''admin'' \<and>
   AdminMiddleware (MeHandler sampleEnv) (context_of john) =
     \<lparr> status = 403, body = JObject [(''error'', JString ''Admin access required'')] \<rparr> \<and>
   Values bare_request ''currentUser'' = None \<and>
   AdminMiddleware (MeHandler sampleEnv) bare_request =
     \<lparr> status = 401, body = JObject [(''error'', JString ''Unauthorized'')] \<rparr> \<and>
   status (AdminMiddleware (MeHandler sampleEnv) bare_request) \<in> {401, 403}"
proof -
  have r: "Role root = ''admin''" and j: "Role john \<noteq> ''admin''"
    by (simp_all add: root_def john_def)
  have b: "Values bare_request ''currentUser'' = None"
    by (simp add: bare_request_def)
  have me: "MeHandler sampleEnv (context_of root) =
      \<lparr> status = 200, body = User_MarshalJSON sampleEnv root \<rparr>"
    by (simp add: MeHandler_def Values_context_of Value_MarshalJSON_def StatusOK_def)
  have 1: "AdminMiddleware (MeHandler sampleEnv) (context_of root) =
      MeHandler sampleEnv (context_of root)"
    using AdminMiddleware_role_gate [of "context_of root" root "MeHandler sampleEnv"]
      Values_context_of r by blast
  have 2: "AdminMiddleware (MeHandler sampleEnv) (context_of john) =
     \<lparr> status = 403, body = JObject [(''error'', JString ''Admin access required'')] \<rparr>"
    using AdminMiddleware_role_gate [of "context_of john" john "MeHandler sampleEnv"]
      Values_context_of j by blast
  have 3: "AdminMiddleware (MeHandler sampleEnv) bare_request =
     \<lparr> status = 401, body = JObject [(''error'', JString ''Unauthorized'')] \<rparr>"
    using AdminMiddleware_role_gate [of bare_request john "MeHandler sampleEnv"] b by blast
  have 4: "status (AdminMiddleware (MeHandler sampleEnv) bare_request) \<in> {401, 403}"
    using AdminMiddleware_role_gate [of bare_request john "MeHandler sampleEnv"] b by simp
  show ?thesis
    using r j b 1 2 3 4 me Values_context_of by simp
qed


section \<open>Login\<close>

lemma LoginHandler_no_identity:
  assumes "Where_email_First db (ToLower E (login_Email req)) = None"
  shows "LoginHandler E db t0 t1 (Some req) =
           render_error StatusUnauthorized ''Invalid credentials''"
  using assms by (simp add: LoginHandler_def)

lemma LoginHandler_wrong_password:
  assumes "Where_email_First db (ToLower E (login_Email req)) = Some user"
    and "\<not> ValidatePassword E user (login_Password req)"
  shows "LoginHandler E db t0 t1 (Some req) =
           render_error StatusUnauthorized ''Invalid credentials''"
  using assms by (simp add: LoginHandler_def)

lemma LoginHandler_success:
  assumes "Where_email_First db (ToLower E (login_Email req)) = Some user"
    and "ValidatePassword E user (login_Password req)"
  shows "\<exists>tokenString.
           GenerateJWT E t0 t1 user = Inr (tokenString, t0 + 24 * Hour) \<and>
           LoginHandler E db t0 t1 (Some req) =
             render_auth E StatusOK tokenString user (t0 + 24 * Hour)"
  using assms by (simp add: LoginHandler_def GenerateJWT_eq)

lemma sample_ToLower: "ToLower sampleEnv = ascii_ToLower"
  by (simp add: sampleEnv_def)

lemma sample_TrimSpace: "TrimSpace sampleEnv = ascii_TrimSpace"
  by (simp add: sampleEnv_def)

lemma sample_RuneCountInString: "RuneCountInString sampleEnv = length"
  by (simp add: sampleEnv_def)

lemma ToLower_john: "ToLower sampleEnv ''john@example.com'' = ''john@example.com''"
  unfolding sample_ToLower by code_simp

lemma ToLower_nobody:
  "ToLower sampleEnv ''nonexistent@example.com'' = ''nonexistent@example.com''"
  unfolding sample_ToLower by code_simp

lemma sampleDB_john: "Where_email_First sampleDB ''john@example.com'' = Some john"
  by (simp add: Where_email_First_def sampleDB_def john_def scan_row_def)

lemma sampleDB_nobody: "Where_email_First sampleDB ''nonexistent@example.com'' = None"
  by (simp add: Where_email_First_def sampleDB_def john_def root_def)

text \<open>
  C3.  A login for which the store has no user under the lower-cased email and a login
  for which the password does not match the stored hash receive the same response:
  status 401 with the body \<open>{error: "Invalid credentials"}\<close>.
\<close>

theorem LoginHandler_uniform_failure:
  "(Where_email_First db (ToLower E (login_Email req)) = None \<longrightarrow>
      LoginHandler E db t0 t1 (Some req) =
        \<lparr> status = 401, body = JObject [(''error'', JString ''Invalid credentials'')] \<rparr>) \<and>
   (Where_email_First db' (ToLower E' (login_Email req')) = Some user \<and>
    \<not> ValidatePassword E' user (login_Password req') \<longrightarrow>
      LoginHandler E' db' t0' t1' (Some req') =
        \<lparr> status = 401, body = JObject [(''error'', JString ''Invalid credentials'')] \<rparr>)"
  by (simp add: LoginHandler_no_identity LoginHandler_wrong_password render_error_unfold
      StatusUnauthorized_def)

theorem LoginHandler_uniform_failure_witness:
  "Where_email_First sampleDB
     (ToLower sampleEnv (login_Email \<lparr> login_Email = ''nonexistent@example.com'',
                            login_Password = ''password123'' \<rparr>)) = None \<and>
   LoginHandler sampleEnv sampleDB 1000000000250 1000000000300
     (Some \<lparr> login_Email = ''nonexistent@example.com'', login_Password = ''password123'' \<rparr>) =
     \<lparr> status = 401, body = JObject [(''error'', JString ''Invalid credentials'')] \<rparr> \<and>
   Where_email_First sampleDB
     (ToLower sampleEnv (login_Email \<lparr> login_Email = ''john@example.com'',
                            login_Password = ''wrongpassword'' \<rparr>)) = Some john \<and>
   \<not> ValidatePassword sampleEnv john ''wrongpassword'' \<and>
   LoginHandler sampleEnv sampleDB 1000000000250 1000000000300
     (Some \<lparr> login_Email = ''john@example.com'', login_Password = ''wrongpassword'' \<rparr>) =
     \<lparr> status = 401, body = JObject [(''error'', JString ''Invalid credentials'')] \<rparr>"
proof -
  let ?r1 = "\<lparr> login_Email = ''nonexistent@example.com'', login_Password = ''password123'' \<rparr>"
  let ?r2 = "\<lparr> login_Email = ''john@example.com'', login_Password = ''wrongpassword'' \<rparr>"
  have a: "Where_email_First sampleDB (ToLower sampleEnv (login_Email ?r1)) = None"
    by (simp add: ToLower_nobody sampleDB_nobody)
  have b: "Where_email_First sampleDB (ToLower sampleEnv (login_Email ?r2)) = Some john"
    by (simp add: ToLower_john sampleDB_john)
  have c: "\<not> ValidatePassword sampleEnv john (login_Password ?r2)"
    by (simp add: ValidatePassword_def sampleEnv_def john_def)
  note inst = LoginHandler_uniform_failure
    [where db = sampleDB and req = ?r1 and E = sampleEnv and ?t0.0 = 1000000000250
      and ?t1.0 = 1000000000300 and db' = sampleDB and req' = ?r2 and user = john
      and E' = sampleEnv and t0' = 1000000000250 and t1' = 1000000000300]
  from inst a b c show ?thesis by simp
qed


section \<open>Serialization of a user\<close>

text \<open>
  C9.  The JSON form of a user has exactly the fields \<open>id\<close>, \<open>name\<close>, \<open>email\<close>,
  \<open>role\<close>, \<open>created_at\<close> and \<open>updated_at\<close>; it has no field \<open>password_hash\<close>,
  \<open>password\<close> or \<open>password_confirm\<close>, and it does not change when the password hash
  and the two virtual password fields change.  \<open>User.String\<close> gives the same object.
\<close>

theorem User_JSON_hides_secrets:
  "json_keys (User_MarshalJSON E u) =
     [''id'', ''name'', ''email'', ''role'', ''created_at'', ''updated_at''] \<and>
   ''password_hash'' \<notin> set (json_keys (User_MarshalJSON E u)) \<and>
   ''password'' \<notin> set (json_keys (User_MarshalJSON E u)) \<and>
   ''password_confirm'' \<notin> set (json_keys (User_MarshalJSON E u)) \<and>
   User_MarshalJSON E (u\<lparr> PasswordHash := h, Password := p, PasswordConfirm := q \<rparr>) =
     User_MarshalJSON E u \<and>
   User_String E (u\<lparr> PasswordHash := h, Password := p, PasswordConfirm := q \<rparr>) =
     User_String E u \<and>
   User_String E u = User_MarshalJSON E u"
  by (simp add: User_MarshalJSON_def User_String_def safeCopy_MarshalJSON_def)


section \<open>Normalisation of the email at login\<close>

lemma show_nat_100: "show_nat 100 = ''100''"
  by code_simp

lemma show_nat_2: "show_nat 2 = ''2''"
  by code_simp

lemma Validate_normalises_email:
  "Email (fst (Validate E u)) = ToLower E (TrimSpace E (Email u))"
  by (simp add: Validate_def Let_def)

lemma padded_normal:
  "ToLower sampleEnv (TrimSpace sampleEnv '' John@Example.com '') = ''john@example.com''"
  unfolding sample_ToLower sample_TrimSpace by code_simp

lemma padded_lower: "ToLower sampleEnv '' John@Example.com '' = '' john@example.com ''"
  unfolding sample_ToLower by code_simp

lemma mixed_lower: "ToLower sampleEnv ''John@Example.com'' = ''john@example.com''"
  unfolding sample_ToLower by code_simp

lemma sampleDB_padded: "Where_email_First sampleDB '' john@example.com '' = None"
  by (simp add: Where_email_First_def sampleDB_def john_def root_def)

lemma john_password: "ValidatePassword sampleEnv john ''password123''"
  by (simp add: ValidatePassword_def sampleEnv_def john_def)

text \<open>
  C8.  \<open>LoginHandler\<close> lower-cases the submitted email but does not trim it, while
  \<open>User.Validate\<close> stores the email lower-cased and trimmed.  With \<open>john\<close> stored under
  \<open>john@example.com\<close>, the email \<open>" John@Example.com "\<close> is normalised by \<open>Validate\<close> to
  the stored email, yet a login with it and the correct password is answered 401
  "Invalid credentials"; without the surrounding spaces the same login is answered 200.
\<close>

theorem LoginHandler_untrimmed_email:
  "Email (fst (Validate sampleEnv (john\<lparr> Email := '' John@Example.com '' \<rparr>))) = Email john \<and>
   Where_email_First sampleDB (Email john) = Some john \<and>
   ValidatePassword sampleEnv john ''password123'' \<and>
   LoginHandler sampleEnv sampleDB 1000000000250 1000000000300
     (Some \<lparr> login_Email = '' John@Example.com '', login_Password = ''password123'' \<rparr>) =
     \<lparr> status = 401, body = JObject [(''error'', JString ''Invalid credentials'')] \<rparr> \<and>
   status (LoginHandler sampleEnv sampleDB 1000000000250 1000000000300
     (Some \<lparr> login_Email = ''John@Example.com'', login_Password = ''password123'' \<rparr>)) = 200"
proof -
  have e: "Email john = ''john@example.com''"
    by (simp add: john_def)
  have 1: "Email (fst (Validate sampleEnv (john\<lparr> Email := '' John@Example.com '' \<rparr>))) = Email john"
    unfolding Validate_normalises_email e by (simp add: padded_normal)
  have 2: "LoginHandler sampleEnv sampleDB 1000000000250 1000000000300
     (Some \<lparr> login_Email = '' John@Example.com '', login_Password = ''password123'' \<rparr>) =
     render_error StatusUnauthorized ''Invalid credentials''"
    by (rule LoginHandler_no_identity) (simp add: padded_lower sampleDB_padded)
  obtain tokenString where "LoginHandler sampleEnv sampleDB 1000000000250 1000000000300
     (Some \<lparr> login_Email = ''John@Example.com'', login_Password = ''password123'' \<rparr>) =
       render_auth sampleEnv StatusOK tokenString john (1000000000250 + 24 * Hour)"
    using LoginHandler_success [where db = sampleDB and E = sampleEnv and user = john and
        req = "\<lparr> login_Email = ''John@Example.com'', login_Password = ''password123'' \<rparr>"]
    by (auto simp: mixed_lower sampleDB_john john_password)
  then have 3: "status (LoginHandler sampleEnv sampleDB 1000000000250 1000000000300
     (Some \<lparr> login_Email = ''John@Example.com'', login_Password = ''password123'' \<rparr>)) = 200"
    by (simp add: render_auth_def StatusOK_def)
  show ?thesis
    using 1 3 e sampleDB_john john_password
    by (simp add: 2 render_error_unfold StatusUnauthorized_def)
qed


section \<open>Registration\<close>

lemma Keys_errors_Add: "set (Keys (errors_Add e k m)) = insert k (set (Keys e))"
  unfolding Keys_def
proof (induction e)
  case Nil
  show ?case by simp
next
  case (Cons a e)
  obtain k' ms where a: "a = (k', ms)" by (cases a)
  show ?case
    unfolding a using Cons.IH by (cases "k' = k") auto
qed

lemma Keys_Add_msgs:
  "set (Keys (foldl (\<lambda>a msg. errors_Add a k msg) v ms)) =
     (if ms = [] then set (Keys v) else insert k (set (Keys v)))"
  by (induction ms arbitrary: v) (auto simp: Keys_errors_Add)

lemma Keys_errors_Append:
  "set (Keys (errors_Append v ers)) = set (Keys v) \<union> {k. \<exists>ms. (k, ms) \<in> set ers \<and> ms \<noteq> []}"
  unfolding errors_Append_def
proof (induction ers arbitrary: v)
  case Nil
  then show ?case by simp
next
  case (Cons a ers)
  obtain k ms where a: "a = (k, ms)" by (cases a)
  show ?case
    unfolding a by (auto simp: Cons.IH Keys_Add_msgs split: if_splits)
qed

lemma errors_Add_has: "\<exists>ms. (k, ms) \<in> set (errors_Add e k m) \<and> ms \<noteq> []"
  by (induction e) auto

lemma errors_Add_keeps:
  "(k', ms) \<in> set e \<Longrightarrow> ms \<noteq> [] \<Longrightarrow> \<exists>ms'. (k', ms') \<in> set (errors_Add e k m) \<and> ms' \<noteq> []"
  by (induction e) auto

lemma ValidateCreate_password:
  assumes "length (Password u) < 8 \<or> 100 < length (Password u)"
  shows "\<exists>ms. (''password'', ms) \<in> set (ValidateCreate E tx u) \<and> ms \<noteq> []"
proof -
  let ?e1 = "(if Password u = '''' then errors_Add [] ''password'' ''Password is required''
         else
           (let a = (if length (Password u) < 8
                     then errors_Add [] ''password''
                            ''Password must be at least 8 characters long''
                     else []);
                b = (if length (Password u) > 100
                     then errors_Add a ''password''
                            ''Password must be less than 100 characters''
                     else a)
            in if PasswordConfirm u \<noteq> '''' \<and> Password u \<noteq> PasswordConfirm u
               then errors_Add b ''password_confirm'' ''Password confirmation does not match''
               else b))"
  have e1: "\<exists>ms. (''password'', ms) \<in> set ?e1 \<and> ms \<noteq> []"
    using assms by (auto simp: Let_def)
  show ?thesis
  proof (cases "Where_email_First tx (ToLower E (Email u))")
    case None
    then have "ValidateCreate E tx u = ?e1"
      by (simp add: ValidateCreate_def)
    with e1 show ?thesis by simp
  next
    case (Some x)
    then have "ValidateCreate E tx u = errors_Add ?e1 ''email'' ''Email is already taken''"
      by (simp add: ValidateCreate_def)
    with e1 show ?thesis
      using errors_Add_keeps by metis
  qed
qed

lemma Validate_name:
  assumes "RuneCountInString E (TrimSpace E (Name u)) < 2 \<or> 100 < RuneCountInString E (TrimSpace E (Name u))"
  shows "''name'' \<in> set (Keys (snd (Validate E u)))"
proof -
  have "''name'' \<in> set (Keys (StringLengthInRange E (TrimSpace E (Name u)) ''Name'' ''name'' 2 100 e))"
    for e
    using assms by (auto simp: StringLengthInRange_def Keys_errors_Add)
  then show ?thesis
    by (simp add: Validate_def Let_def StringIsPresent_def EmailIsPresent_validator_def
        Keys_errors_Add)
qed

lemma Validate_email:
  assumes "\<not> emailRegex_MatchString (ToLower E (TrimSpace E (Email u)))"
  shows "''email'' \<in> set (Keys (snd (Validate E u)))"
  using assms
  by (simp add: Validate_def Let_def Keys_errors_Add)

lemma Validate_Password: "Password (fst (Validate E u)) = Password u"
  by (simp add: Validate_def Let_def)

lemma ValidateCreate_email_taken:
  assumes "Where_email_First tx (ToLower E (Email u)) = Some x"
  shows "\<exists>ms. (''email'', ms) \<in> set (ValidateCreate E tx u) \<and> ms \<noteq> []"
  using assms errors_Add_has [of "''email''" _ "''Email is already taken''"]
  by (simp add: ValidateCreate_def Let_def)

lemma RegisterHandler_mismatch:
  assumes "req_Password req \<noteq> req_PasswordConfirm req"
  shows "RegisterHandler E db newID tc t0 t1 (Some req) =
           (render_error StatusBadRequest ''Password confirmation does not match'', db)"
  using assms by (simp add: RegisterHandler_def)

lemma ValidateAndCreate_invalid:
  assumes "HasAny (errors_Append (snd (Validate E user))
                     (ValidateCreate E db (fst (Validate E user))))"
  shows "ValidateAndCreate E db newID tc user =
           (errors_Append (snd (Validate E user)) (ValidateCreate E db (fst (Validate E user))),
            False, fst (Validate E user), db)"
  using assms by (simp add: ValidateAndCreate_def Let_def split_beta)

lemma HasAny_Keys: "HasAny v \<longleftrightarrow> Keys v \<noteq> []"
  by (simp add: HasAny_def Keys_def)

lemma RegisterHandler_invalid:
  assumes "req_Password req = req_PasswordConfirm req"
    and "user = \<lparr> ID = 0, Name = req_Name req, Email = req_Email req,
                   PasswordHash = '''', Role = RoleUser,
                   CreatedAt = zeroTime, UpdatedAt = zeroTime,
                   Password = req_Password req,
                   PasswordConfirm = req_PasswordConfirm req \<rparr>"
    and "verrs = errors_Append (snd (Validate E user)) (ValidateCreate E db (fst (Validate E user)))"
    and "k \<in> set (Keys verrs)"
  shows "RegisterHandler E db newID tc t0 t1 (Some req) =
           (\<lparr> status = 400,
              body = JObject [(''error'', JString ''Validation failed''),
                              (''details'',
                               JObject (map (\<lambda>key. (key, JString (Join (Get verrs key) '', '')))
                                          (Keys verrs)))] \<rparr>, db)"
proof -
  have any: "HasAny verrs"
    using assms(4) by (auto simp: HasAny_Keys)
  have vc: "ValidateAndCreate E db newID tc user = (verrs, False, fst (Validate E user), db)"
    using any unfolding assms(3) by (rule ValidateAndCreate_invalid)
  have ne: "Keys verrs \<noteq> []"
    using any by (simp add: HasAny_Keys)
  have step: "RegisterHandler E db newID tc t0 t1 (Some req) =
      (case ValidateAndCreate E db newID tc user of
         (verrs, err, user', db') \<Rightarrow>
           if err
           then (render_error StatusInternalServerError ''Failed to create user'', db')
           else if HasAny verrs
           then (\<lparr> status = StatusBadRequest,
                    body = ErrorResponse_MarshalJSON
                      \<lparr> Error = ''Validation failed'',
                        Details = map (\<lambda>key. (key, Join (Get verrs key) '', ''))
                                    (Keys verrs) \<rparr> \<rparr>, db')
           else
             (case GenerateJWT E t0 t1 user' of
                Inl e \<Rightarrow>
                  (render_error StatusInternalServerError ''Failed to generate token'', db')
              | Inr (tokenString, expiresAt) \<Rightarrow>
                  (render_auth E StatusCreated tokenString user' expiresAt, db')))"
    unfolding RegisterHandler_def assms(2) using assms(1) by (simp add: Let_def)
  show ?thesis
    unfolding step vc using any ne
    by (simp add: ErrorResponse_MarshalJSON_def StatusBadRequest_def comp_def)
qed

lemma invalid_name:
  "RuneCountInString sampleEnv (TrimSpace sampleEnv (req_Name invalid_request)) < 2"
  unfolding invalid_request_def sample_TrimSpace sample_RuneCountInString by code_simp

lemma invalid_email:
  "\<not> emailRegex_MatchString
       (ToLower sampleEnv (TrimSpace sampleEnv (req_Email invalid_request)))"
  unfolding invalid_request_def sample_TrimSpace sample_ToLower by code_simp

lemma invalid_password: "length (req_Password invalid_request) < 8"
  by (simp add: invalid_request_def)

lemma accent_name:
  "RuneCountInString unicodeEnv (TrimSpace unicodeEnv (req_Name accent_request)) < 2"
proof -
  have eq: "RuneCountInString unicodeEnv (TrimSpace unicodeEnv (req_Name accent_request)) =
      utf8_RuneCount (ascii_TrimSpace [CHR 0xC3, CHR 0xA9])"
    by (simp add: unicodeEnv_def sampleEnv_def accent_request_def)
  have "utf8_RuneCount (ascii_TrimSpace [CHR 0xC3, CHR 0xA9]) < 2"
    by code_simp
  then show ?thesis
    unfolding eq .
qed

lemma duplicate_normal:
  "ToLower sampleEnv (ToLower sampleEnv (TrimSpace sampleEnv (req_Email duplicate_request))) =
     ''john@example.com''"
  unfolding duplicate_request_def sample_TrimSpace sample_ToLower by code_simp

lemma duplicate_taken:
  "Where_email_First sampleDB
     (ToLower sampleEnv (ToLower sampleEnv (TrimSpace sampleEnv (req_Email duplicate_request)))) =
   Some john"
  by (simp add: duplicate_normal sampleDB_john)

text \<open>
  A registration whose confirmation differs from the password is answered before any
  validation runs, with a body that has the field \<open>error\<close> alone.
\<close>

theorem RegisterHandler_mismatch_without_details:
  "RegisterHandler sampleEnv sampleDB 3 777 1000000000250 1000000000300
     (Some mismatch_request) =
     (\<lparr> status = 400,
        body = JObject [(''error'', JString ''Password confirmation does not match'')] \<rparr>,
      sampleDB) \<and>
   req_Password mismatch_request \<noteq> req_PasswordConfirm mismatch_request \<and>
   ''details'' \<notin> set (json_keys (body (fst
      (RegisterHandler sampleEnv sampleDB 3 777 1000000000250 1000000000300
         (Some mismatch_request)))))"
proof -
  have d: "req_Password mismatch_request \<noteq> req_PasswordConfirm mismatch_request"
    by (simp add: mismatch_request_def)
  show ?thesis
    unfolding RegisterHandler_mismatch [OF d]
    using d by (simp add: render_error_unfold StatusBadRequest_def)
qed

text \<open>
  C7 (as amended).  A registration whose confirmation differs from the password is
  answered 400 with the body \<open>{error: "Password confirmation does not match"}\<close> and no
  details.  A registration whose confirmation equals the password and whose trimmed name
  has fewer than 2 or more than 100 characters (runes), whose trimmed and lower-cased
  email does not match the email pattern or is already taken, or whose password has
  fewer than 8 or more than 100 bytes, is answered 400 with the body
  \<open>{error: "Validation failed", details: {field: reason}}\<close>, the details holding an entry
  for each of \<open>name\<close>, \<open>email\<close> and \<open>password\<close> that is violated; the store is
  unchanged in both cases.
\<close>

theorem RegisterHandler_validation_failures:
  assumes "name_bad \<longleftrightarrow>
             RuneCountInString E (TrimSpace E (req_Name req)) < 2 \<or>
             100 < RuneCountInString E (TrimSpace E (req_Name req))"
    and "email_bad \<longleftrightarrow>
           \<not> emailRegex_MatchString (ToLower E (TrimSpace E (req_Email req))) \<or>
           Where_email_First db (ToLower E (ToLower E (TrimSpace E (req_Email req)))) \<noteq> None"
    and "password_bad \<longleftrightarrow> length (req_Password req) < 8 \<or> 100 < length (req_Password req)"
  shows
  "(req_Password req \<noteq> req_PasswordConfirm req \<longrightarrow>
      RegisterHandler E db newID tc t0 t1 (Some req) =
        (\<lparr> status = 400,
           body = JObject [(''error'', JString ''Password confirmation does not match'')] \<rparr>,
         db)) \<and>
   (req_Password req = req_PasswordConfirm req \<and> (name_bad \<or> email_bad \<or> password_bad) \<longrightarrow>
      (\<exists>details.
         RegisterHandler E db newID tc t0 t1 (Some req) =
           (\<lparr> status = 400,
              body = JObject [(''error'', JString ''Validation failed''),
                              (''details'', JObject details)] \<rparr>, db) \<and>
         (\<forall>kv \<in> set details. \<exists>reason. snd kv = JString reason) \<and>
         (name_bad \<longrightarrow> ''name'' \<in> fst ` set details) \<and>
         (email_bad \<longrightarrow> ''email'' \<in> fst ` set details) \<and>
         (password_bad \<longrightarrow> ''password'' \<in> fst ` set details)))"
proof (intro conjI impI)
  assume "req_Password req \<noteq> req_PasswordConfirm req"
  then show "RegisterHandler E db newID tc t0 t1 (Some req) =
        (\<lparr> status = 400,
           body = JObject [(''error'', JString ''Password confirmation does not match'')] \<rparr>,
         db)"
    by (simp add: RegisterHandler_mismatch render_error_unfold StatusBadRequest_def)
next
  assume a: "req_Password req = req_PasswordConfirm req \<and>
    (name_bad \<or> email_bad \<or> password_bad)"
  define user where "user = \<lparr> ID = 0, Name = req_Name req, Email = req_Email req,
                   PasswordHash = '''', Role = RoleUser,
                   CreatedAt = zeroTime, UpdatedAt = zeroTime,
                   Password = req_Password req,
                   PasswordConfirm = req_PasswordConfirm req \<rparr>"
  define verrs where
    "verrs = errors_Append (snd (Validate E user)) (ValidateCreate E db (fst (Validate E user)))"
  define details where
    "details = map (\<lambda>key. (key, JString (Join (Get verrs key) '', ''))) (Keys verrs)"
  have keys: "fst ` set details = set (Keys verrs)"
    by (force simp: details_def)
  have n: "name_bad \<longrightarrow> ''name'' \<in> set (Keys verrs)"
    using assms(1) Validate_name [where u = user and E = E]
    by (simp add: verrs_def Keys_errors_Append user_def)
  have e: "email_bad \<longrightarrow> ''email'' \<in> set (Keys verrs)"
  proof
    assume email_bad
    then consider
      (format) "\<not> emailRegex_MatchString (ToLower E (TrimSpace E (req_Email req)))"
      | (taken) x where
        "Where_email_First db (ToLower E (ToLower E (TrimSpace E (req_Email req)))) = Some x"
      using assms(2) by auto
    then show "''email'' \<in> set (Keys verrs)"
    proof cases
      case format
      then show ?thesis
        using Validate_email [where u = user and E = E]
        by (simp add: verrs_def Keys_errors_Append user_def)
    next
      case taken
      have "Email (fst (Validate E user)) = ToLower E (TrimSpace E (req_Email req))"
        by (simp add: Validate_normalises_email user_def)
      then have "Where_email_First db (ToLower E (Email (fst (Validate E user)))) = Some x"
        using taken by simp
      from ValidateCreate_email_taken [OF this]
      show ?thesis
        by (auto simp: verrs_def Keys_errors_Append)
    qed
  qed
  have p: "password_bad \<longrightarrow> ''password'' \<in> set (Keys verrs)"
  proof
    assume password_bad
    then have "length (Password (fst (Validate E user))) < 8 \<or>
               100 < length (Password (fst (Validate E user)))"
      using assms(3) by (simp add: Validate_Password user_def)
    from ValidateCreate_password [OF this, of E db]
    show "''password'' \<in> set (Keys verrs)"
      by (auto simp: verrs_def Keys_errors_Append)
  qed
  from a n e p obtain k where k: "k \<in> set (Keys verrs)" by blast
  have r: "RegisterHandler E db newID tc t0 t1 (Some req) =
           (\<lparr> status = 400,
              body = JObject [(''error'', JString ''Validation failed''),
                              (''details'', JObject details)] \<rparr>, db)"
    unfolding details_def
    using a user_def verrs_def k by (intro RegisterHandler_invalid) simp_all
  have s: "\<forall>kv \<in> set details. \<exists>reason. snd kv = JString reason"
    by (auto simp: details_def)
  show "\<exists>details.
         RegisterHandler E db newID tc t0 t1 (Some req) =
           (\<lparr> status = 400,
              body = JObject [(''error'', JString ''Validation failed''),
                              (''details'', JObject details)] \<rparr>, db) \<and>
         (\<forall>kv \<in> set details. \<exists>reason. snd kv = JString reason) \<and>
         (name_bad \<longrightarrow> ''name'' \<in> fst ` set details) \<and>
         (email_bad \<longrightarrow> ''email'' \<in> fst ` set details) \<and>
         (password_bad \<longrightarrow> ''password'' \<in> fst ` set details)"
  proof (intro exI conjI)
    show "RegisterHandler E db newID tc t0 t1 (Some req) =
           (\<lparr> status = 400,
              body = JObject [(''error'', JString ''Validation failed''),
                              (''details'', JObject details)] \<rparr>, db)"
      by (rule r)
    show "\<forall>kv \<in> set details. \<exists>reason. snd kv = JString reason"
      by (rule s)
    show "name_bad \<longrightarrow> ''name'' \<in> fst ` set details"
      using n keys by simp
    show "email_bad \<longrightarrow> ''email'' \<in> fst ` set details"
      using e keys by simp
    show "password_bad \<longrightarrow> ''password'' \<in> fst ` set details"
      using p keys by simp
  qed
qed

theorem RegisterHandler_validation_failures_witness:
  "req_Password mismatch_request \<noteq> req_PasswordConfirm mismatch_request \<and>
   RegisterHandler sampleEnv sampleDB 3 777 1000000000250 1000000000300
     (Some mismatch_request) =
     (\<lparr> status = 400,
        body = JObject [(''error'', JString ''Password confirmation does not match'')] \<rparr>,
      sampleDB) \<and>
   req_Password invalid_request = req_PasswordConfirm invalid_request \<and>
   RuneCountInString sampleEnv (TrimSpace sampleEnv (req_Name invalid_request)) < 2 \<and>
   \<not> emailRegex_MatchString
       (ToLower sampleEnv (TrimSpace sampleEnv (req_Email invalid_request))) \<and>
   length (req_Password invalid_request) < 8 \<and>
   (\<exists>details.
      RegisterHandler sampleEnv sampleDB 3 777 1000000000250 1000000000300
        (Some invalid_request) =
        (\<lparr> status = 400,
           body = JObject [(''error'', JString ''Validation failed''),
                           (''details'', JObject details)] \<rparr>, sampleDB) \<and>
      ''name'' \<in> fst ` set details \<and>
      ''email'' \<in> fst ` set details \<and>
      ''password'' \<in> fst ` set details) \<and>
   req_Password duplicate_request = req_PasswordConfirm duplicate_request \<and>
   Where_email_First sampleDB
     (ToLower sampleEnv (ToLower sampleEnv (TrimSpace sampleEnv (req_Email duplicate_request)))) =
     Some john \<and>
   (\<exists>details.
      RegisterHandler sampleEnv sampleDB 3 777 1000000000250 1000000000300
        (Some duplicate_request) =
        (\<lparr> status = 400,
           body = JObject [(''error'', JString ''Validation failed''),
                           (''details'', JObject details)] \<rparr>, sampleDB) \<and>
      ''email'' \<in> fst ` set details) \<and>
   req_Password accent_request = req_PasswordConfirm accent_request \<and>
   length (req_Name accent_request) = 2 \<and>
   RuneCountInString unicodeEnv (TrimSpace unicodeEnv (req_Name accent_request)) < 2 \<and>
   (\<exists>details.
      RegisterHandler unicodeEnv sampleDB 3 777 1000000000250 1000000000300
        (Some accent_request) =
        (\<lparr> status = 400,
           body = JObject [(''error'', JString ''Validation failed''),
                           (''details'', JObject details)] \<rparr>, sampleDB) \<and>
      ''name'' \<in> fst ` set details)"
proof -
  have d: "req_Password mismatch_request \<noteq> req_PasswordConfirm mismatch_request"
    by (simp add: mismatch_request_def)
  have m'': "req_Password accent_request = req_PasswordConfirm accent_request"
    "length (req_Name accent_request) = 2"
    by (simp_all add: accent_request_def)
  have 4: "\<exists>details.
      RegisterHandler unicodeEnv sampleDB 3 777 1000000000250 1000000000300
        (Some accent_request) =
        (\<lparr> status = 400,
           body = JObject [(''error'', JString ''Validation failed''),
                           (''details'', JObject details)] \<rparr>, sampleDB) \<and>
      ''name'' \<in> fst ` set details"
    using RegisterHandler_validation_failures
      [OF refl refl refl, where req = accent_request and E = unicodeEnv and db = sampleDB
        and newID = 3 and tc = 777 and ?t0.0 = 1000000000250 and ?t1.0 = 1000000000300]
      m''(1) accent_name
    by auto
  have m': "req_Password duplicate_request = req_PasswordConfirm duplicate_request"
    by (simp add: duplicate_request_def)
  have 3: "\<exists>details.
      RegisterHandler sampleEnv sampleDB 3 777 1000000000250 1000000000300
        (Some duplicate_request) =
        (\<lparr> status = 400,
           body = JObject [(''error'', JString ''Validation failed''),
                           (''details'', JObject details)] \<rparr>, sampleDB) \<and>
      ''email'' \<in> fst ` set details"
    using RegisterHandler_validation_failures
      [OF refl refl refl, where req = duplicate_request and E = sampleEnv and db = sampleDB
        and newID = 3 and tc = 777 and ?t0.0 = 1000000000250 and ?t1.0 = 1000000000300]
      m' duplicate_taken
    by auto
  have m: "req_Password invalid_request = req_PasswordConfirm invalid_request"
    by (simp add: invalid_request_def)
  have 1: "RegisterHandler sampleEnv sampleDB 3 777 1000000000250 1000000000300
     (Some mismatch_request) =
     (\<lparr> status = 400,
        body = JObject [(''error'', JString ''Password confirmation does not match'')] \<rparr>,
      sampleDB)"
    using RegisterHandler_validation_failures
      [OF refl refl refl, where req = mismatch_request and E = sampleEnv and db = sampleDB
        and newID = 3 and tc = 777 and ?t0.0 = 1000000000250 and ?t1.0 = 1000000000300]
      d by simp
  have 2: "\<exists>details.
      RegisterHandler sampleEnv sampleDB 3 777 1000000000250 1000000000300
        (Some invalid_request) =
        (\<lparr> status = 400,
           body = JObject [(''error'', JString ''Validation failed''),
                           (''details'', JObject details)] \<rparr>, sampleDB) \<and>
      ''name'' \<in> fst ` set details \<and>
      ''email'' \<in> fst ` set details \<and>
      ''password'' \<in> fst ` set details"
    using RegisterHandler_validation_failures
      [OF refl refl refl, where req = invalid_request and E = sampleEnv and db = sampleDB
        and newID = 3 and tc = 777 and ?t0.0 = 1000000000250 and ?t1.0 = 1000000000300]
      m invalid_name invalid_email invalid_password
    by auto
  show ?thesis
    using d m m' m'' invalid_name invalid_email invalid_password duplicate_taken accent_name
      1 2 3 4 by blast
qed


section \<open>Refreshing a token\<close>

lemma RefreshTokenHandler_bound:
  assumes "Values c ''currentUser'' = Some (VUser u)"
  shows "RefreshTokenHandler E t0 t1 c =
           render_auth E StatusOK
             (signed_token E (jwtSecretKey E) (issued_claims E t0 t1 u)) u (t0 + 24 * Hour)"
  using assms by (simp add: RefreshTokenHandler_def GenerateJWT_eq)

lemma signed_token_inject:
  assumes lib: "jwt_library_ok E" and wf1: "well_formed E c1" and wf2: "well_formed E c2"
    and eq: "signed_token E key c1 = signed_token E key c2"
  shows "c1 = c2"
proof -
  have "Split (signed_token E key c1) (CHR ''.'') = Split (signed_token E key c2) (CHR ''.'')"
    using eq by (rule arg_cong)
  then have "EncodeClaims E c1 = EncodeClaims E c2"
    unfolding Split_signed_token [OF lib] by simp
  then have "DecodeClaims E (EncodeClaims E c1) = DecodeClaims E (EncodeClaims E c2)"
    by simp
  moreover have "DecodeClaims E (EncodeClaims E c) = Some c" if "well_formed E c" for c
    using that lib
    by (simp add: DecodeClaims_def EncodeClaims_def well_formed_def jwt_library_ok_def)
  ultimately show ?thesis
    using wf1 wf2 by simp
qed

lemma issued_claims_IssuedAt:
  "IssuedAt (issued_claims E t0 t1 u) = Some (Second * (t1 div Second))"
  by (simp add: issued_claims_def NewNumericDate_def minus_mod_eq_mult_div)

lemma issued_1000_later:
  "issued_claims sampleEnv 1000000000400 1000000000500 john = john_claims 1000"
  by (simp add: issued_claims_def sampleEnv_def john_def john_claims_def NewNumericDate_def
      Hour_def Second_def)

lemma issued_200000:
  "issued_claims sampleEnv 200000000000250 200000000000300 john = john_claims 200000"
  by (simp add: issued_claims_def sampleEnv_def john_def john_claims_def NewNumericDate_def
      Hour_def Second_def)

lemma wf_200000: "well_formed sampleEnv (john_claims 200000)"
  by (simp add: well_formed_def sampleEnv_def sample_payloads_def john_claims_def)

lemma sample_token_1000:
  "signed_token sampleEnv (jwtSecretKey sampleEnv) (john_claims 1000) = john_token"
  by (simp add: signed_token_def EncodeHeader_def EncodeClaims_def sampleEnv_def
      sample_payloads_def john_token_def)

text \<open>
  The issued-at and expiry instants of the claims are whole seconds and the signature is
  a function of the claims, so two refreshes for one user within the same second return
  the same token string.
\<close>

theorem RefreshTokenHandler_same_second_same_token:
  "RefreshTokenHandler sampleEnv 1000000000250 1000000000300 (context_of john) =
     render_auth sampleEnv 200 john_token john 87400000000250 \<and>
   RefreshTokenHandler sampleEnv 1000000000400 1000000000500 (context_of john) =
     render_auth sampleEnv 200 john_token john 87400000000400"
  unfolding RefreshTokenHandler_bound [OF Values_context_of] issued_1000 issued_1000_later
    sample_token_1000
  by (simp add: StatusOK_def Hour_def Second_def)

text \<open>
  C4 (as amended).  For every user with well-formed claims, two calls of
  \<open>RefreshTokenHandler\<close> whose issue instants fall in different seconds return two
  distinct token strings, signed for claims that differ in their issued-at.
  \<open>ValidateJWT\<close> accepts each of the two tokens at every instant from its own issue
  up to its own expiry, whatever the distance between the two calls, and returns the
  claims it was signed for, which carry the identifier of that user as user id and
  subject.
\<close>

theorem RefreshTokenHandler_distinct_tokens:
  assumes "jwt_library_ok E"
    and "well_formed E (issued_claims E t0 t1 u)"
    and "well_formed E (issued_claims E t0' t1' u)"
    and "Values c ''currentUser'' = Some (VUser u)"
    and "t1 div Second \<noteq> t1' div Second"
  shows "\<exists>token1 token2.
           RefreshTokenHandler E t0 t1 c = render_auth E StatusOK token1 u (t0 + 24 * Hour) \<and>
           RefreshTokenHandler E t0' t1' c = render_auth E StatusOK token2 u (t0' + 24 * Hour) \<and>
           token1 \<noteq> token2 \<and>
           IssuedAt (issued_claims E t0 t1 u) \<noteq> IssuedAt (issued_claims E t0' t1' u) \<and>
           UserID (issued_claims E t0 t1 u) = uuid_String E (ID u) \<and>
           Subject (issued_claims E t0 t1 u) = uuid_String E (ID u) \<and>
           UserID (issued_claims E t0' t1' u) = uuid_String E (ID u) \<and>
           Subject (issued_claims E t0' t1' u) = uuid_String E (ID u) \<and>
           (\<forall>now. t1 \<le> now \<and> now < t0 + 24 * Hour - (t0 + 24 * Hour) mod Second \<longrightarrow>
              ValidateJWT E now token1 = Inr (issued_claims E t0 t1 u)) \<and>
           (\<forall>now. t1' \<le> now \<and> now < t0' + 24 * Hour - (t0' + 24 * Hour) mod Second \<longrightarrow>
              ValidateJWT E now token2 = Inr (issued_claims E t0' t1' u))"
proof -
  let ?c1 = "issued_claims E t0 t1 u" and ?c2 = "issued_claims E t0' t1' u"
  let ?tok1 = "signed_token E (jwtSecretKey E) ?c1"
  let ?tok2 = "signed_token E (jwtSecretKey E) ?c2"
  have iat: "IssuedAt ?c1 \<noteq> IssuedAt ?c2"
    using assms(5) by (simp add: issued_claims_IssuedAt Second_def)
  then have ne: "?c1 \<noteq> ?c2" by auto
  have tok: "?tok1 \<noteq> ?tok2"
    using signed_token_inject [OF assms(1,2,3), of "jwtSecretKey E"] ne by blast
  have v1: "\<forall>now. t1 \<le> now \<and> now < t0 + 24 * Hour - (t0 + 24 * Hour) mod Second \<longrightarrow>
      ValidateJWT E now ?tok1 = Inr ?c1"
    using ValidateJWT_issued [OF assms(1,2)] by blast
  have v2: "\<forall>now. t1' \<le> now \<and> now < t0' + 24 * Hour - (t0' + 24 * Hour) mod Second \<longrightarrow>
      ValidateJWT E now ?tok2 = Inr ?c2"
    using ValidateJWT_issued [OF assms(1,3)] by blast
  have r1: "RefreshTokenHandler E t0 t1 c = render_auth E StatusOK ?tok1 u (t0 + 24 * Hour)"
    using assms(4) by (rule RefreshTokenHandler_bound)
  have r2: "RefreshTokenHandler E t0' t1' c = render_auth E StatusOK ?tok2 u (t0' + 24 * Hour)"
    using assms(4) by (rule RefreshTokenHandler_bound)
  have ids: "UserID ?c1 = uuid_String E (ID u)" "Subject ?c1 = uuid_String E (ID u)"
    "UserID ?c2 = uuid_String E (ID u)" "Subject ?c2 = uuid_String E (ID u)"
    by (simp_all add: issued_claims_def)
  show ?thesis
  proof (intro exI conjI)
    show "RefreshTokenHandler E t0 t1 c = render_auth E StatusOK ?tok1 u (t0 + 24 * Hour)"
      by (rule r1)
    show "RefreshTokenHandler E t0' t1' c = render_auth E StatusOK ?tok2 u (t0' + 24 * Hour)"
      by (rule r2)
    show "?tok1 \<noteq> ?tok2" by (rule tok)
    show "IssuedAt ?c1 \<noteq> IssuedAt ?c2" by (rule iat)
    show "UserID ?c1 = uuid_String E (ID u)" by (rule ids)
    show "Subject ?c1 = uuid_String E (ID u)" by (rule ids)
    show "UserID ?c2 = uuid_String E (ID u)" by (rule ids)
    show "Subject ?c2 = uuid_String E (ID u)" by (rule ids)
    show "\<forall>now. t1 \<le> now \<and> now < t0 + 24 * Hour - (t0 + 24 * Hour) mod Second \<longrightarrow>
      ValidateJWT E now ?tok1 = Inr ?c1" by (rule v1)
    show "\<forall>now. t1' \<le> now \<and> now < t0' + 24 * Hour - (t0' + 24 * Hour) mod Second \<longrightarrow>
      ValidateJWT E now ?tok2 = Inr ?c2" by (rule v2)
  qed
qed

theorem RefreshTokenHandler_distinct_tokens_witness:
  "jwt_library_ok sampleEnv \<and>
   well_formed sampleEnv (issued_claims sampleEnv 1000000000250 1000000000300 john) \<and>
   well_formed sampleEnv (issued_claims sampleEnv 200000000000250 200000000000300 john) \<and>
   Values (context_of john) ''currentUser'' = Some (VUser john) \<and>
   (1000000000300 :: int) div Second \<noteq> 200000000000300 div Second \<and>
   (\<exists>token1 token2.
      RefreshTokenHandler sampleEnv 1000000000250 1000000000300 (context_of john) =
        render_auth sampleEnv StatusOK token1 john (1000000000250 + 24 * Hour) \<and>
      RefreshTokenHandler sampleEnv 200000000000250 200000000000300 (context_of john) =
        render_auth sampleEnv StatusOK token2 john (200000000000250 + 24 * Hour) \<and>
      token1 \<noteq> token2 \<and>
      ValidateJWT sampleEnv 1000000000300 token1 = Inr (john_claims 1000) \<and>
      ValidateJWT sampleEnv 200000000000300 token2 = Inr (john_claims 200000) \<and>
      IssuedAt (john_claims 1000) \<noteq> IssuedAt (john_claims 200000) \<and>
      UserID (john_claims 1000) = uuid_String sampleEnv (ID john) \<and>
      UserID (john_claims 200000) = uuid_String sampleEnv (ID john))"
proof -
  have w1: "well_formed sampleEnv (issued_claims sampleEnv 1000000000250 1000000000300 john)"
    by (simp add: issued_1000 wf_1000)
  have w2: "well_formed sampleEnv (issued_claims sampleEnv 200000000000250 200000000000300 john)"
    by (simp add: issued_200000 wf_200000)
  have d: "(1000000000300 :: int) div Second \<noteq> 200000000000300 div Second"
    by (simp add: Second_def)
  have e1: "(1000000000300 :: int) \<le> 1000000000300 \<and> (1000000000300 :: int) <
      1000000000250 + 24 * Hour - (1000000000250 + 24 * Hour) mod Second"
    by (simp add: Hour_def Second_def)
  have e2: "(200000000000300 :: int) \<le> 200000000000300 \<and> (200000000000300 :: int) <
      200000000000250 + 24 * Hour - (200000000000250 + 24 * Hour) mod Second"
    by (simp add: Hour_def Second_def)
  from RefreshTokenHandler_distinct_tokens
    [OF sampleEnv_library_ok w1 w2 Values_context_of d]
  obtain token1 token2 where
    r: "RefreshTokenHandler sampleEnv 1000000000250 1000000000300 (context_of john) =
        render_auth sampleEnv StatusOK token1 john (1000000000250 + 24 * Hour)"
      "RefreshTokenHandler sampleEnv 200000000000250 200000000000300 (context_of john) =
        render_auth sampleEnv StatusOK token2 john (200000000000250 + 24 * Hour)"
      "token1 \<noteq> token2"
    and i: "IssuedAt (issued_claims sampleEnv 1000000000250 1000000000300 john) \<noteq>
        IssuedAt (issued_claims sampleEnv 200000000000250 200000000000300 john)"
      "UserID (issued_claims sampleEnv 1000000000250 1000000000300 john) =
        uuid_String sampleEnv (ID john)"
      "UserID (issued_claims sampleEnv 200000000000250 200000000000300 john) =
        uuid_String sampleEnv (ID john)"
    and v1: "\<forall>now. 1000000000300 \<le> now \<and>
        now < 1000000000250 + 24 * Hour - (1000000000250 + 24 * Hour) mod Second \<longrightarrow>
        ValidateJWT sampleEnv now token1 =
          Inr (issued_claims sampleEnv 1000000000250 1000000000300 john)"
    and v2: "\<forall>now. 200000000000300 \<le> now \<and>
        now < 200000000000250 + 24 * Hour - (200000000000250 + 24 * Hour) mod Second \<longrightarrow>
        ValidateJWT sampleEnv now token2 =
          Inr (issued_claims sampleEnv 200000000000250 200000000000300 john)"
    by blast
  have a1: "ValidateJWT sampleEnv 1000000000300 token1 = Inr (john_claims 1000)"
    using v1 e1 by (simp add: issued_1000)
  have a2: "ValidateJWT sampleEnv 200000000000300 token2 = Inr (john_claims 200000)"
    using v2 e2 by (simp add: issued_200000)
  show ?thesis
    using sampleEnv_library_ok w1 w2 Values_context_of d r a1 a2 i
    unfolding issued_1000 issued_200000 by blast
qed


end
